theory Spec2Isabelle
  imports Main
begin

section \<open>Values, series and frames\<close>

text \<open>
  The generator builds each table as a pandas \<open>DataFrame\<close> from a dict literal and writes
  it with \<open>to_csv\<close>. A cell is one of the Python objects the script puts into a table: an
  \<open>int\<close>, a \<open>float\<close>, a \<open>str\<close>, the missing-value marker \<open>np.nan\<close>, or a
  \<open>datetime\<close> at midnight.

  A float \<open>FloatV m k\<close> is the double nearest to the decimal \<open>m / 10^k\<close>; the script only has
  short decimal literals (\<open>0.15\<close>) and integers turned into floats by a missing marker in their
  column. A datetime \<open>DateV n\<close> is the day with proleptic Gregorian ordinal \<open>n\<close>
  (\<open>datetime.toordinal\<close>).
\<close>

datatype cell = IntV int | FloatV int nat | StrV string | NaN | DateV int

datatype error = ValueError | KeyError | TypeError

type_synonym series = "cell list"

text \<open>A frame is the ordered list of its columns, each a name and a series; a dict literal
  keeps the order in which its keys are written.\<close>

type_synonym frame = "(string \<times> series) list"

definition and_then :: "error + 'a \<Rightarrow> ('a \<Rightarrow> error + 'b) \<Rightarrow> error + 'b" where
  "and_then m f = (case m of Inl e \<Rightarrow> Inl e | Inr x \<Rightarrow> f x)"

subsection \<open>Column types\<close>

fun is_int :: "cell \<Rightarrow> bool" where
  "is_int (IntV i) = True"
| "is_int c = False"

fun is_number :: "cell \<Rightarrow> bool" where
  "is_number (IntV i) = True"
| "is_number (FloatV m k) = True"
| "is_number NaN = True"
| "is_number c = False"

fun to_float :: "cell \<Rightarrow> cell" where
  "to_float (IntV i) = FloatV i 0"
| "to_float c = c"

text \<open>
  The constructor picks one dtype per column: a list of ints stays \<open>int64\<close>; a list of
  numbers with a float or a missing marker among them becomes \<open>float64\<close>, every int turned
  into the float of the same value; anything else is an \<open>object\<close> column that keeps its
  elements as they are.
\<close>

definition sanitize_array :: "cell list \<Rightarrow> series" where
  "sanitize_array xs =
     (if list_all is_number xs \<and> \<not> list_all is_int xs then map to_float xs else xs)"

definition sanitized :: "(string \<times> cell list) list \<Rightarrow> frame" where
  "sanitized data = map (\<lambda>d. (fst d, sanitize_array (snd d))) data"

text \<open>\<open>pd.DataFrame(data)\<close> raises \<open>ValueError\<close> when the lists differ in length.\<close>

definition DataFrame :: "(string \<times> cell list) list \<Rightarrow> error + frame" where
  "DataFrame data =
     (case data of
        [] \<Rightarrow> Inr []
      | c # cs \<Rightarrow>
          if list_all (\<lambda>d. length (snd d) = length (snd c)) cs
          then Inr (sanitized data)
          else Inl ValueError)"

definition nrows :: "frame \<Rightarrow> nat" where
  "nrows df = (case df of [] \<Rightarrow> 0 | c # cs \<Rightarrow> length (snd c))"

definition row_cells :: "frame \<Rightarrow> nat \<Rightarrow> cell list" where
  "row_cells df i = map (\<lambda>c. snd c ! i) df"

text \<open>\<open>df[name]\<close>: the column of that name, \<open>KeyError\<close> when there is none.\<close>

definition getitem :: "frame \<Rightarrow> string \<Rightarrow> error + series" where
  "getitem df name = (case map_of df name of None \<Rightarrow> Inl KeyError | Some s \<Rightarrow> Inr s)"

text \<open>\<open>series == 'text'\<close>: elementwise; only the string of the same characters is equal
  to a string.\<close>

definition eq_str :: "series \<Rightarrow> string \<Rightarrow> bool list" where
  "eq_str s v = map (\<lambda>c. c = StrV v) s"

text \<open>
  \<open>df.loc[mask, name] = v\<close>: in the column \<open>name\<close>, the rows where the mask holds get
  \<open>v\<close>, and the column's dtype is chosen again. When the frame has no such column, a new one
  is appended that is missing wherever the mask does not hold.
\<close>

definition set_where :: "bool list \<Rightarrow> cell \<Rightarrow> series \<Rightarrow> series" where
  "set_where msk v s = map (\<lambda>(b, c). if b then v else c) (zip msk s)"

definition loc_setitem :: "bool list \<Rightarrow> string \<Rightarrow> cell \<Rightarrow> frame \<Rightarrow> frame" where
  "loc_setitem msk name v df =
     (if name \<in> set (map fst df)
      then map (\<lambda>c. if fst c = name then (fst c, sanitize_array (set_where msk v (snd c))) else c) df
      else df @ [(name, sanitize_array (map (\<lambda>b. if b then v else NaN) msk))])"

subsection \<open>Series arithmetic and column assignment\<close>

text \<open>
  \<open>series + pd.to_timedelta(days, unit='D')\<close>: elementwise; a datetime moves by whole
  days, a missing value stays missing, any other element raises \<open>TypeError\<close>, and operands
  of different lengths raise \<open>ValueError\<close>.
\<close>

fun add_days :: "series \<Rightarrow> int list \<Rightarrow> error + series" where
  "add_days [] [] = Inr []"
| "add_days (DateV d # cs) (k # ks) = and_then (add_days cs ks) (\<lambda>r. Inr (DateV (d + k) # r))"
| "add_days (NaN # cs) (k # ks) = and_then (add_days cs ks) (\<lambda>r. Inr (NaN # r))"
| "add_days (c # cs) (k # ks) = Inl TypeError"
| "add_days cs ks = Inl ValueError"

text \<open>\<open>df[name] = series\<close>: replaces the column of that name where it stands, or appends a
  new last column; \<open>ValueError\<close> when the length is not the frame's.\<close>

definition setitem :: "string \<Rightarrow> series \<Rightarrow> frame \<Rightarrow> error + frame" where
  "setitem name s df =
     (if df \<noteq> [] \<and> length s \<noteq> nrows df then Inl ValueError
      else if name \<in> set (map fst df)
      then Inr (map (\<lambda>c. if fst c = name then (name, sanitize_array s) else c) df)
      else Inr (df @ [(name, sanitize_array s)]))"

section \<open>The text of a cell\<close>

definition digit_char :: "nat \<Rightarrow> char" where
  "digit_char d = ''0123456789'' ! d"

fun show_nat :: "nat \<Rightarrow> string" where
  "show_nat n = (if n < 10 then [digit_char n] else show_nat (n div 10) @ [digit_char (n mod 10)])"

declare show_nat.simps [simp del]

definition show_int :: "int \<Rightarrow> string" where
  "show_int i = (if i < 0 then CHR ''-'' # show_nat (nat (- i)) else show_nat (nat i))"

definition zero_pad :: "nat \<Rightarrow> string \<Rightarrow> string" where
  "zero_pad w s = replicate (w - length s) (CHR ''0'') @ s"

definition strip_zeros :: "string \<Rightarrow> string" where
  "strip_zeros s = rev (dropWhile (\<lambda>c. c = CHR ''0'') (rev s))"

text \<open>
  \<open>repr\<close> of a float prints the shortest decimal that reads back as the same double. For the
  double nearest to a decimal of at most 15 significant digits that is the decimal itself
  without its trailing zeros, and \<open>.0\<close> after an integral value; \<open>repr\<close> writes it in
  positional form for magnitudes from \<open>1e-4\<close> up to \<open>1e16\<close>, the only ones in the script.
\<close>

definition float_repr :: "int \<Rightarrow> nat \<Rightarrow> string" where
  "float_repr m k =
     (let a = nat \<bar>m\<bar>;
          frac = strip_zeros (zero_pad k (show_nat (a mod 10 ^ k)))
      in (if m < 0 then [CHR ''-''] else []) @ show_nat (a div 10 ^ k) @ [CHR ''.''] @
         (if frac = [] then [CHR ''0''] else frac))"

subsection \<open>Calendar dates\<close>

text \<open>The ordinal arithmetic of Python's \<open>datetime\<close> module (\<open>_ymd2ord\<close>,
  \<open>_ord2ymd\<close>): day 1 is 0001-01-01.\<close>

definition is_leap :: "int \<Rightarrow> bool" where
  "is_leap year = (year mod 4 = 0 \<and> (year mod 100 \<noteq> 0 \<or> year mod 400 = 0))"

definition days_before_year :: "int \<Rightarrow> int" where
  "days_before_year year = (let y = year - 1 in y * 365 + y div 4 - y div 100 + y div 400)"

definition DAYS_IN_MONTH :: "int list" where
  "DAYS_IN_MONTH = [-1, 31, 28, 31, 30, 31, 30, 31, 31, 30, 31, 30, 31]"

definition DAYS_BEFORE_MONTH :: "int list" where
  "DAYS_BEFORE_MONTH = [-1, 0, 31, 59, 90, 120, 151, 181, 212, 243, 273, 304, 334]"

definition days_before_month :: "int \<Rightarrow> nat \<Rightarrow> int" where
  "days_before_month year month =
     DAYS_BEFORE_MONTH ! month + (if month > 2 \<and> is_leap year then 1 else 0)"

definition ymd2ord :: "int \<Rightarrow> nat \<Rightarrow> int \<Rightarrow> int" where
  "ymd2ord year month day = days_before_year year + days_before_month year month + day"

definition ord2ymd :: "int \<Rightarrow> int \<times> nat \<times> int" where
  "ord2ymd ordinal =
     (let n0 = ordinal - 1;
          n400 = n0 div 146097; n1 = n0 mod 146097;
          n100 = n1 div 36524; n2 = n1 mod 36524;
          n4 = n2 div 1461; n3 = n2 mod 1461;
          n1y = n3 div 365; n = n3 mod 365;
          year = n400 * 400 + 1 + n100 * 100 + n4 * 4 + n1y
      in if n1y = 4 \<or> n100 = 4 then (year - 1, 12, 31)
         else
           let leapyear = (n1y = 3 \<and> (n4 \<noteq> 24 \<or> n100 = 3));
               month = nat ((n + 50) div 32);
               preceding = DAYS_BEFORE_MONTH ! month + (if month > 2 \<and> leapyear then 1 else 0)
           in if preceding > n
              then (year, month - 1,
                    n - (preceding - (DAYS_IN_MONTH ! (month - 1)
                                       + (if month - 1 = 2 \<and> leapyear then 1 else 0))) + 1)
              else (year, month, n - preceding + 1))"

text \<open>\<open>datetime(year, month, day)\<close>, for a valid date (the script has two, both valid), and
  the \<open>.days\<close> of the difference of two of them.\<close>

definition datetime :: "int \<Rightarrow> nat \<Rightarrow> int \<Rightarrow> int" where
  "datetime year month day = ymd2ord year month day"

text \<open>A datetime column whose values are all at midnight is written as \<open>YYYY-MM-DD\<close>.\<close>

definition show_date :: "int \<Rightarrow> string" where
  "show_date ordinal =
     (case ord2ymd ordinal of
        (y, m, d) \<Rightarrow>
          zero_pad 4 (show_int y) @ [CHR ''-''] @ zero_pad 2 (show_nat m) @ [CHR ''-''] @
          zero_pad 2 (show_int d))"

text \<open>What \<open>to_csv\<close> hands to the CSV writer for one cell; \<open>na_rep\<close> is the empty
  string.\<close>

fun cell_text :: "cell \<Rightarrow> string" where
  "cell_text (IntV i) = show_int i"
| "cell_text (FloatV m k) = float_repr m k"
| "cell_text (StrV s) = s"
| "cell_text NaN = []"
| "cell_text (DateV n) = show_date n"

section \<open>The CSV writer\<close>

text \<open>
  \<open>to_csv\<close> writes through Python's \<open>csv.writer\<close> with the delimiter \<open>,\<close>, the double
  quote as quote character, minimal quoting and the line terminator of POSIX. A field is
  quoted when it holds the delimiter, the quote character, a line feed or a carriage return,
  and a quote character inside it is doubled. A record that is one empty field is written as
  two quote characters.
\<close>

definition dquote :: char where
  "dquote = CHR 0x22"

definition newline :: char where
  "newline = CHR 0x0A"

definition special_char :: "char \<Rightarrow> bool" where
  "special_char c = (c = CHR '','' \<or> c = dquote \<or> c = newline \<or> c = CHR 0x0D)"

definition escape :: "string \<Rightarrow> string" where
  "escape s = concat (map (\<lambda>c. if c = dquote then [dquote, dquote] else [c]) s)"

definition quote_field :: "string \<Rightarrow> string" where
  "quote_field s = (if list_ex special_char s then dquote # escape s @ [dquote] else s)"

fun join_fields :: "string list \<Rightarrow> string" where
  "join_fields [] = []"
| "join_fields [f] = f"
| "join_fields (f # g # fs) = f @ CHR '','' # join_fields (g # fs)"

definition writerow :: "string list \<Rightarrow> string" where
  "writerow fs =
     (if fs = [[]] then [dquote, dquote] else join_fields (map quote_field fs)) @ [newline]"

text \<open>
  The text of a frame: the header row with the column names, then one row per index value.
  With \<open>index=True\<close> each row starts with the row number, under an empty header name; the
  script always passes \<open>index=False\<close>.
\<close>

definition csv_rows :: "bool \<Rightarrow> frame \<Rightarrow> string list list" where
  "csv_rows index df =
     ((if index then [[]] else []) @ map fst df) #
     map (\<lambda>i. (if index then [show_nat i] else []) @ map cell_text (row_cells df i))
       [0..<nrows df]"

definition csv_text :: "bool \<Rightarrow> frame \<Rightarrow> string" where
  "csv_text index df = concat (map writerow (csv_rows index df))"

section \<open>The environment\<close>

text \<open>
  The script acts on its environment in three ways: it advances numpy's global random state,
  it writes files into the working directory, and it prints. The random state is a stream of
  natural numbers, of which every draw takes the next one; the other two are recorded, in the
  order in which they happen, in a history.
\<close>

datatype event = FileWritten string string | Printed string

record world =
  rng_state :: "nat \<Rightarrow> nat"
  history :: "event list"

definition to_csv :: "frame \<Rightarrow> string \<Rightarrow> bool \<Rightarrow> world \<Rightarrow> world" where
  "to_csv df path index w = w\<lparr>history := history w @ [FileWritten path (csv_text index df)]\<rparr>"

definition py_print :: "string \<Rightarrow> world \<Rightarrow> world" where
  "py_print msg w = w\<lparr>history := history w @ [Printed msg]\<rparr>"

text \<open>The files of the working directory after a history: the last write to a path is its
  content.\<close>

fun files_after :: "(string \<rightharpoonup> string) \<Rightarrow> event list \<Rightarrow> (string \<rightharpoonup> string)" where
  "files_after fs [] = fs"
| "files_after fs (FileWritten path content # es) = files_after (fs(path \<mapsto> content)) es"
| "files_after fs (Printed msg # es) = files_after fs es"

fun printed :: "event list \<Rightarrow> string list" where
  "printed [] = []"
| "printed (Printed msg # es) = msg # printed es"
| "printed (FileWritten path content # es) = printed es"

fun written :: "event list \<Rightarrow> (string \<times> string) list" where
  "written [] = []"
| "written (FileWritten path content # es) = (path, content) # written es"
| "written (Printed msg # es) = written es"

subsection \<open>numpy's random draws\<close>

text \<open>
  A draw of \<open>n\<close> values takes the next \<open>n\<close> numbers of the stream, and a bounded draw
  reduces each of them into its range. Which numbers the stream holds is left open: what is
  proved for every world holds for every outcome of the sampling, and every value in the
  range of a draw is its result in some world. The reduction is the remainder by the width
  of the range, which sends equally many numbers of a span of a multiple of the width to
  each value: numbers spread evenly over such a span give evenly spread outcomes.
\<close>

definition draws :: "nat \<Rightarrow> world \<Rightarrow> nat list \<times> world" where
  "draws n w = (map (rng_state w) [0..<n], w\<lparr>rng_state := (\<lambda>i. rng_state w (i + n))\<rparr>)"

text \<open>\<open>np.random.choice(a, size)\<close>: each element is the element of \<open>a\<close> at a drawn
  position; \<open>ValueError\<close> on an empty \<open>a\<close>.\<close>

definition random_choice :: "'a list \<Rightarrow> nat \<Rightarrow> world \<Rightarrow> error + ('a list \<times> world)" where
  "random_choice a n w =
     (if a = [] then Inl ValueError
      else case draws n w of (rs, w') \<Rightarrow> Inr (map (\<lambda>r. a ! (r mod length a)) rs, w'))"

text \<open>\<open>np.random.randint(low, high, size)\<close>: integers from \<open>low\<close> (inclusive) to
  \<open>high\<close> (exclusive); \<open>ValueError\<close> when \<open>low >= high\<close>.\<close>

definition random_randint :: "int \<Rightarrow> int \<Rightarrow> nat \<Rightarrow> world \<Rightarrow> error + (int list \<times> world)" where
  "random_randint low high n w =
     (if high \<le> low then Inl ValueError
      else case draws n w of (rs, w') \<Rightarrow> Inr (map (\<lambda>r. low + int r mod (high - low)) rs, w'))"

text \<open>\<open>np.arange(start, stop)\<close> and \<open>range(stop)\<close>.\<close>

definition arange :: "int \<Rightarrow> int \<Rightarrow> int list" where
  "arange start stop = [start..stop - 1]"

definition py_range :: "int \<Rightarrow> int list" where
  "py_range stop = [0..stop - 1]"

section \<open>The tables of the script\<close>

text \<open>Each dict literal of \<open>generate_ngo_data\<close>, under its name in the script and in the
  order of the script.\<close>

definition data_projects :: "(string \<times> cell list) list" where
  "data_projects =
    [(''ProjectID'', map IntV [101, 102, 103, 104, 105]),
     (''Region'', map StrV [''East Africa'', ''South Asia'', ''West Africa'', ''East Africa'',
        ''South Asia'']),
     (''StartDate'', map StrV [''2023-01-15'', ''2023-02-01'', ''2023-03-10'', ''2023-04-05'',
        ''2023-05-20'']),
     (''EndDate'', map StrV [''2023-06-30'', ''2023-07-15'', ''2023-08-20'', ''2023-09-10'',
        ''2023-10-30'']),
     (''Budget'', map IntV [150000, 200000, 120000, 180000, 250000])]"

definition data_beneficiary_basic :: "(string \<times> cell list) list" where
  "data_beneficiary_basic =
    [(''BeneficiaryID'', map IntV [1, 2, 3, 4, 5]),
     (''Age'', map IntV [25, 34, 28, 40, 30]),
     (''Gender'', map StrV [''Female'', ''Male'', ''Female'', ''Male'', ''Female'']),
     (''Location'', map StrV [''Camp A'', ''Village B'', ''Camp A'', ''Village C'', ''Camp B'']),
     (''AssistanceType'', map StrV [''Food'', ''Shelter'', ''Medical'', ''Food'', ''Shelter''])]"

definition num_rows_large :: nat where
  "num_rows_large = 100000"

text \<open>The values of a dict literal are evaluated in the order in which they are written, so
  the three random columns are drawn in that order.\<close>

definition large_data :: "world \<Rightarrow> error + ((string \<times> cell list) list \<times> world)" where
  "large_data w0 =
     and_then (random_choice [''East Africa'', ''South Asia'', ''West Africa'', ''Latin America'']
                 num_rows_large w0) (\<lambda>(region, w1).
     and_then (random_choice [''Active'', ''Completed'', ''Pending''] num_rows_large w1)
       (\<lambda>(status, w2).
     and_then (random_randint 50000 500000 num_rows_large w2) (\<lambda>(budget, w3).
       Inr ([(''ProjectID'', map IntV (arange 1 (int num_rows_large + 1))),
             (''Region'', map StrV region),
             (''Status'', map StrV status),
             (''Budget'', map IntV budget)], w3))))"

definition df_large_sample :: "world \<Rightarrow> error + (frame \<times> world)" where
  "df_large_sample w0 =
     and_then (large_data w0) (\<lambda>(data, w1).
     and_then (DataFrame data) (\<lambda>df. Inr (df, w1)))"

definition data_missing :: "(string \<times> cell list) list" where
  "data_missing =
    [(''BeneficiaryID'', map IntV [1, 2, 3, 4, 5, 6, 7]),
     (''Age'', [IntV 25, IntV 34, NaN, IntV 45, IntV 19, NaN, IntV 50]),
     (''Gender'', map StrV [''Female'', ''Male'', ''Female'', ''Male'', ''Female'', ''Male'',
        ''Female'']),
     (''Location'', map StrV [''Camp A'', ''Village B'', ''Camp A'', ''Village C'', ''Camp B'',
        ''Village B'', ''Camp A'']),
     (''AssistanceType'', [StrV ''Food'', StrV ''Shelter'', NaN, StrV ''Food'', StrV ''Medical'',
        StrV ''Shelter'', StrV ''Food''])]"

definition data_project_updates :: "(string \<times> cell list) list" where
  "data_project_updates =
    [(''UpdateID'', map IntV [1, 2, 3, 4, 5, 6]),
     (''ProjectID'', map IntV [101, 102, 101, 103, 102, 104]),
     (''Date'', map StrV [''2023-01-20'', ''2023-02-05'', ''2023-03-15'', ''2023-04-10'',
        ''2023-05-25'', ''2023-06-05'']),
     (''Status'', [StrV ''On Track'', StrV ''Completed'', NaN, StrV ''Delayed'', StrV ''On Track'',
        NaN]),
     (''Notes'', [StrV ''Initial report'', StrV ''Finalized'', StrV ''Needs review'', NaN,
        StrV ''Mid-term update'', NaN])]"

definition data_health :: "(string \<times> cell list) list" where
  "data_health =
    [(''PatientID'', map IntV [1, 2, 3, 4, 5, 6, 7, 8, 9, 10]),
     (''Age'', map IntV [30, 45, 22, 60, 35, 50, 28, 42, 55, 65]),
     (''Weight'', map IntV [70, 85, 60, 90, 75, 80, 65, 78, 88, 92]),
     (''Diagnosis'', map StrV [''Flu'', ''Malaria'', ''Flu'', ''Typhoid'', ''Flu'', ''Malaria'',
        ''Flu'', ''Typhoid'', ''Malaria'', ''Flu'']),
     (''Medication'', [StrV ''A'', StrV ''B'', NaN, StrV ''C'', StrV ''A'', StrV ''B'', NaN,
        StrV ''C'', StrV ''B'', NaN])]"

text \<open>
  Lines 71 to 73: the frame is built, then
  \<open>df_health.loc[df_health['Diagnosis'] == 'Flu', 'Medication'] = np.nan\<close>.
  Both steps are written for any dict literal, so that they can be read at other literal
  values than those of the script.
\<close>

definition flu_override :: "frame \<Rightarrow> error + frame" where
  "flu_override df =
     and_then (getitem df ''Diagnosis'') (\<lambda>diagnosis.
       Inr (loc_setitem (eq_str diagnosis ''Flu'') ''Medication'' NaN df))"

definition health_frame :: "(string \<times> cell list) list \<Rightarrow> error + frame" where
  "health_frame data = and_then (DataFrame data) flu_override"

definition df_health :: "error + frame" where
  "df_health = health_frame data_health"

definition data_messy :: "(string \<times> cell list) list" where
  "data_messy =
    [(''ProjectID'', map StrV [''101'', ''102'', ''103 '', ''104'', ''105'']),
     (''Region'', map StrV [''East Africa '', ''south asia'', ''WEST AFRICA'', ''East Africa'',
        ''South Asia'']),
     (''Status'', map StrV [''Active'', ''Completed '', ''Pending'', ''active'', ''Completed'']),
     (''Budget'', map StrV [''150000'', ''200000'', ''120000'', ''180000'', ''250000''])]"

definition data_item :: "(string \<times> cell list) list" where
  "data_item =
    [(''Item'', map StrV [''   apple'', ''BANANA '', ''orange'', '' GRAPES  '']),
     (''Quantity'', map StrV [''10'', ''5'', ''12'', ''8'']),
     (''Price'', map StrV [''1.20'', ''0.75'', ''2.50'', ''3.00''])]"

definition data_advanced_messy :: "(string \<times> cell list) list" where
  "data_advanced_messy =
    [(''ProjectCode'', map StrV [''NGO-101'', ''PROJ_102'', ''NGO-103'', ''P-104'', ''NGO-105'']),
     (''Description'', map StrV [''Food distribution in area A'',
        ''Shelter for displaced families'', ''Medical aid for children'',
        ''Water sanitation project'', ''Education support'']),
     (''StartDate'', map StrV [''2023/01/15'', ''02-01-2023'', ''March 10, 2023'', ''2023-04-05'',
        ''2023-05-20'']),
     (''Beneficiaries'', map StrV [''1,500'', ''2,000'', ''1,200'', ''1,800'', ''2,500''])]"

definition data_transaction :: "(string \<times> cell list) list" where
  "data_transaction =
    [(''TransactionID'', map StrV [''TRX-ABC-123'', ''TXN_DEF_456'', ''GHI789'', ''TRX-JKL-010'']),
     (''Timestamp'', map StrV [''2023-01-01 10:30:00'', ''Jan 2, 23 11:00 AM'',
        ''03/03/2023 13:45'', ''2023-04-04 09:00:00'']),
     (''Amount'', map IntV [100, 200, 150, 300])]"

definition num_rows_country :: nat where
  "num_rows_country = 100000"

definition countries :: "string list" where
  "countries = [''United States'', ''USA'', ''United States of America'', ''   united states'',
     ''Canada'', ''Mexico'', ''UK'', ''United Kingdom'']"

definition start_date :: int where
  "start_date = datetime 2020 1 1"

definition end_date :: int where
  "end_date = datetime 2023 12 31"

text \<open>Line 120:
  \<open>[start_date + timedelta(days=x) for x in range((end_date - start_date).days)]\<close>.\<close>

definition date_range :: "int list" where
  "date_range = map (\<lambda>x. start_date + x) (py_range (end_date - start_date))"

definition data_country :: "world \<Rightarrow> error + ((string \<times> cell list) list \<times> world)" where
  "data_country w0 =
     and_then (random_choice countries num_rows_country w0) (\<lambda>(country, w1).
     and_then (random_choice date_range num_rows_country w1) (\<lambda>(event_date, w2).
     and_then (random_choice date_range num_rows_country w2) (\<lambda>(report_date, w3).
       Inr ([(''Country'', map StrV country),
             (''EventDate'', map DateV event_date),
             (''ReportDate'', map DateV report_date)], w3))))"

text \<open>
  Lines 127 and 128: the frame is built, then
  \<open>df_country['ReportDate'] = df_country['EventDate'] +
  pd.to_timedelta(np.random.randint(1, 30, num_rows_country), unit='D')\<close>.
\<close>

definition df_country :: "world \<Rightarrow> error + (frame \<times> world)" where
  "df_country w0 =
     and_then (data_country w0) (\<lambda>(data, w1).
     and_then (DataFrame data) (\<lambda>df.
     and_then (getitem df ''EventDate'') (\<lambda>event_date.
     and_then (random_randint 1 30 num_rows_country w1) (\<lambda>(days, w2).
     and_then (add_days event_date days) (\<lambda>report_date.
     and_then (setitem ''ReportDate'' report_date df) (\<lambda>df'.
       Inr (df', w2)))))))"

definition data_projects_cleaned :: "(string \<times> cell list) list" where
  "data_projects_cleaned =
    [(''ProjectID'', map IntV [101, 102, 103, 104, 105, 106, 107]),
     (''Region'', map StrV [''East Africa'', ''South Asia'', ''West Africa'', ''East Africa'',
        ''South Asia'', ''West Africa'', ''East Africa'']),
     (''Budget'', map IntV [150000, 200000, 120000, 180000, 250000, 130000, 190000]),
     (''Status'', map StrV [''Active'', ''Completed'', ''Active'', ''Completed'', ''Active'',
        ''Pending'', ''Active'']),
     (''StartDate'', map StrV [''2023-01-15'', ''2023-02-01'', ''2023-03-10'', ''2023-04-05'',
        ''2023-05-20'', ''2023-06-01'', ''2023-07-10''])]"

definition data_beneficiary_records :: "(string \<times> cell list) list" where
  "data_beneficiary_records =
    [(''BeneficiaryID'', map IntV [1, 2, 3, 4, 5, 6, 7, 8]),
     (''Age'', map IntV [25, 34, 28, 40, 30, 22, 45, 38]),
     (''Gender'', map StrV [''Female'', ''Male'', ''Female'', ''Male'', ''Female'', ''Male'',
        ''Female'', ''Male'']),
     (''Location'', map StrV [''Camp A'', ''Village B'', ''Camp A'', ''Village C'', ''Camp B'',
        ''Village B'', ''Camp A'', ''Village C'']),
     (''AssistanceReceived'', map StrV [''Food'', ''Shelter'', ''Medical'', ''Food'', ''Shelter'',
        ''Food'', ''Medical'', ''Shelter''])]"

definition data_aid_distribution :: "(string \<times> cell list) list" where
  "data_aid_distribution =
    [(''Country'', map StrV [''Kenya'', ''Uganda'', ''Kenya'', ''Ethiopia'', ''Uganda'', ''Kenya'',
        ''Ethiopia'', ''Uganda'']),
     (''AidType'', map StrV [''Food'', ''Medical'', ''Shelter'', ''Food'', ''Medical'', ''Food'',
        ''Shelter'', ''Food'']),
     (''AmountUSD'', map IntV [100000, 150000, 80000, 120000, 200000, 90000, 110000, 180000]),
     (''Year'', map IntV [2022, 2022, 2023, 2022, 2023, 2023, 2023, 2022])]"

definition data_beneficiary_dedup :: "(string \<times> cell list) list" where
  "data_beneficiary_dedup =
    [(''BeneficiaryID'', map IntV [1, 2, 3, 1, 4, 5, 2, 6]),
     (''Age'', map IntV [25, 34, 28, 25, 40, 30, 34, 55]),
     (''Gender'', map StrV [''Female'', ''Male'', ''Female'', ''Female'', ''Male'', ''Female'',
        ''Male'', ''Male'']),
     (''AssistanceType'', map StrV [''Food'', ''Shelter'', ''Food'', ''Food'', ''Medical'',
        ''Shelter'', ''Shelter'', ''Food'']),
     (''Location'', map StrV [''Camp A'', ''Village B'', ''Camp A'', ''Camp A'', ''Village C'',
        ''Camp B'', ''Village B'', ''Camp A''])]"

definition data_event_logs :: "(string \<times> cell list) list" where
  "data_event_logs =
    [(''LogID'', map IntV [1, 2, 3, 4, 5, 6, 7, 8]),
     (''Timestamp'', map StrV [''2023-01-01 10:00:00'', ''2023-01-01 10:05:00'',
        ''2023-01-01 10:00:00'', ''2023-01-02 11:00:00'', ''2023-01-01 10:05:00'',
        ''2023-01-03 12:00:00'', ''2023-01-02 11:00:00'', ''2023-01-04 13:00:00'']),
     (''EventType'', map StrV [''Login'', ''View Page'', ''Login'', ''Logout'', ''View Page'',
        ''Login'', ''Logout'', ''View Page'']),
     (''UserID'', map StrV [''userA'', ''userB'', ''userA'', ''userC'', ''userB'', ''userA'',
        ''userC'', ''userD''])]"

definition data_partners :: "(string \<times> cell list) list" where
  "data_partners =
    [(''OrgID'', map IntV [1, 2, 3, 4, 5, 6, 7]),
     (''OrgName'', map StrV [''Save the Children'', ''Save The Children Intl.'',
        ''Doctors Without Borders'', ''Medecins Sans Frontieres'', ''Save Childrn'',
        ''Doctors W/O Borders'', ''Save the Children'']),
     (''ContactPerson'', map StrV [''Alice'', ''Bob'', ''Charlie'', ''David'', ''Eve'', ''Frank'',
        ''Grace'']),
     (''City'', map StrV [''New York'', ''NYC'', ''Paris'', ''Paris'', ''New-York'', ''London'',
        ''New York''])]"

definition data_health_records :: "(string \<times> cell list) list" where
  "data_health_records =
    [(''PatientID'', map IntV [1, 2, 3, 4, 5, 6, 7, 8, 9, 10]),
     (''WeightKg'', map IntV [70, 85, 60, 90, 75, 80, 65, 78, 88, 92]),
     (''HeightCm'', map IntV [175, 180, 160, 185, 170, 178, 165, 172, 182, 190]),
     (''BloodPressureSystolic'', map IntV [120, 135, 110, 150, 125, 140, 115, 130, 145, 160]),
     (''BloodPressureDiastolic'', map IntV [80, 85, 70, 95, 82, 90, 75, 80, 92, 100])]"

definition df_health_records :: "error + frame" where
  "df_health_records = DataFrame data_health_records"

definition data_school :: "(string \<times> cell list) list" where
  "data_school =
    [(''SchoolID'', map IntV [1, 2, 3, 4, 5, 6, 7, 8]),
     (''District'', map StrV [''North'', ''South'', ''East'', ''West'', ''North'', ''South'',
        ''East'', ''West'']),
     (''Enrollment'', map IntV [500, 700, 600, 800, 550, 720, 630, 850]),
     (''FundingPerStudent'', map IntV [1000, 950, 1100, 900, 1050, 980, 1120, 920]),
     (''TestScoreAverage'', map IntV [75, 80, 70, 85, 78, 82, 72, 88])]"

definition data_poverty :: "(string \<times> cell list) list" where
  "data_poverty =
    [(''District'', map StrV [''North'', ''South'', ''East'', ''West'']),
     (''PovertyRate'', [FloatV 15 2, FloatV 10 2, FloatV 20 2, FloatV 8 2])]"

section \<open>The generator\<close>

text \<open>
  \<open>generate_ngo_data\<close> is a flat sequence of statements; an exception in one of them ends
  the run there. \<open>write_csv\<close> is the pair of statements that all tables but three consist
  of: \<open>df = pd.DataFrame(data)\<close>, then \<open>df.to_csv(path, index=False)\<close>.
\<close>

definition write_csv :: "error + frame \<Rightarrow> string \<Rightarrow> world \<Rightarrow> error + world" where
  "write_csv df path w = and_then df (\<lambda>d. Inr (to_csv d path False w))"

definition write_random_csv ::
    "(world \<Rightarrow> error + (frame \<times> world)) \<Rightarrow> string \<Rightarrow> world \<Rightarrow> error + world" where
  "write_random_csv df path w = and_then (df w) (\<lambda>(d, w'). Inr (to_csv d path False w'))"

definition generate_ngo_data :: "world \<Rightarrow> error + world" where
  "generate_ngo_data w0 =
     and_then (write_csv (DataFrame data_projects) ''ngo_projects.csv'' w0) (\<lambda>w1.
     and_then (write_csv (DataFrame data_beneficiary_basic) ''beneficiary_data.csv'' w1) (\<lambda>w2.
     and_then (write_random_csv df_large_sample ''large_ngo_projects.csv'' w2) (\<lambda>w3.
     and_then (write_csv (DataFrame data_missing) ''beneficiary_data_missing.csv'' w3) (\<lambda>w4.
     and_then (write_csv (DataFrame data_project_updates) ''project_updates.csv'' w4) (\<lambda>w5.
     and_then (write_csv df_health ''health_data.csv'' w5) (\<lambda>w6.
     and_then (write_csv (DataFrame data_messy) ''messy_data.csv'' w6) (\<lambda>w7.
     and_then (write_csv (DataFrame data_item) ''item_data.csv'' w7) (\<lambda>w8.
     and_then (write_csv (DataFrame data_advanced_messy) ''advanced_messy_data.csv'' w8) (\<lambda>w9.
     and_then (write_csv (DataFrame data_transaction) ''transaction_data.csv'' w9) (\<lambda>w10.
     and_then (write_random_csv df_country ''large_country_data.csv'' w10) (\<lambda>w11.
     and_then (write_csv (DataFrame data_projects_cleaned) ''ngo_projects_cleaned.csv'' w11) (\<lambda>w12.
     and_then (write_csv (DataFrame data_beneficiary_records) ''beneficiary_records.csv'' w12) (\<lambda>w13.
     and_then (write_csv (DataFrame data_aid_distribution) ''aid_distribution.csv'' w13) (\<lambda>w14.
     and_then (write_csv (DataFrame data_beneficiary_dedup) ''beneficiary_data_dedup.csv'' w14) (\<lambda>w15.
     and_then (write_csv (DataFrame data_event_logs) ''event_logs.csv'' w15) (\<lambda>w16.
     and_then (write_csv (DataFrame data_partners) ''partner_organizations.csv'' w16) (\<lambda>w17.
     and_then (write_csv df_health_records ''health_records.csv'' w17) (\<lambda>w18.
     and_then (write_csv (DataFrame data_school) ''school_data.csv'' w18) (\<lambda>w19.
     and_then (write_csv (DataFrame data_poverty) ''district_poverty.csv'' w19) (\<lambda>w20.
       Inr (py_print ''All synthetic NGO datasets generated successfully.'' w20)
     ))))))))))))))))))))"

section \<open>Properties of frames\<close>

text \<open>
  The Flu rule read on a frame: the frame has a \<open>Diagnosis\<close> and a \<open>Medication\<close> column,
  and in every row whose diagnosis is the string \<open>Flu\<close> the medication is the missing
  marker. (pandas reads the property as
  \<open>df.loc[df['Diagnosis'] == 'Flu', 'Medication'].isna().all()\<close>, which raises
  \<open>KeyError\<close> on a frame without these columns.)
\<close>

definition flu_rows_unmedicated :: "frame \<Rightarrow> bool" where
  "flu_rows_unmedicated df =
     (case (getitem df ''Diagnosis'', getitem df ''Medication'') of
        (Inr d, Inr m) \<Rightarrow>
          length m = length d \<and> list_all (\<lambda>(dc, mc). dc = StrV ''Flu'' \<longrightarrow> mc = NaN) (zip d m)
      | _ \<Rightarrow> False)"

text \<open>The medication of a row is missing exactly when its diagnosis is \<open>Flu\<close>.\<close>

definition missing_iff_flu :: "frame \<Rightarrow> bool" where
  "missing_iff_flu df =
     (case (getitem df ''Diagnosis'', getitem df ''Medication'') of
        (Inr d, Inr m) \<Rightarrow>
          length m = length d \<and> list_all (\<lambda>(dc, mc). (mc = NaN) = (dc = StrV ''Flu'')) (zip d m)
      | _ \<Rightarrow> False)"

text \<open>In a dict literal, every missing marker of the \<open>Medication\<close> list stands in a row
  whose diagnosis is \<open>Flu\<close>.\<close>

definition literal_missing_on_flu :: "(string \<times> cell list) list \<Rightarrow> bool" where
  "literal_missing_on_flu data =
     (case (map_of data ''Diagnosis'', map_of data ''Medication'') of
        (Some d, Some m) \<Rightarrow>
          length m = length d \<and> list_all (\<lambda>(dc, mc). mc = NaN \<longrightarrow> dc = StrV ''Flu'') (zip d m)
      | _ \<Rightarrow> False)"

text \<open>A world whose random stream is the same number at every position and whose history
  is empty: the worlds at which the theorems below are read on concrete values.\<close>

definition const_world :: "nat \<Rightarrow> world" where
  "const_world r = \<lparr>rng_state = (\<lambda>i. r), history = []\<rparr>"

section \<open>Reading a written file back\<close>

text \<open>
  Modelled from the spec: the parser that reads a written file back is not in the repository
  (the script only writes). The specification fixes the format: one record per line, a
  header row first, fields separated by a comma, fields holding the delimiter or another
  special character quoted by the standard rules of delimited text (a quote character inside
  a quoted field is doubled), a missing value written as an empty field. \<open>parse_csv\<close> reads
  that format into its records of text fields, and is \<open>None\<close> on text that is not of the
  format (an unterminated quoted field, text after a closing quote).
\<close>

datatype mode = FieldStart | Plain | InQuotes | AfterQuote

fun scan ::
    "mode \<Rightarrow> string \<Rightarrow> string list \<Rightarrow> string list list \<Rightarrow> string \<Rightarrow> string list list option"
where
  "scan m f r rs [] =
     (if m = InQuotes then None
      else if m = FieldStart \<and> r = [] then Some rs
      else Some (rs @ [r @ [f]]))"
| "scan m f r rs (c # cs) =
     (if m = InQuotes then
        (if c = dquote then scan AfterQuote f r rs cs else scan InQuotes (f @ [c]) r rs cs)
      else if c = CHR '','' then scan FieldStart [] (r @ [f]) rs cs
      else if c = newline then scan FieldStart [] [] (rs @ [r @ [f]]) cs
      else if m = AfterQuote then
        (if c = dquote then scan InQuotes (f @ [dquote]) r rs cs else None)
      else if m = FieldStart \<and> c = dquote then scan InQuotes [] r rs cs
      else scan Plain (f @ [c]) r rs cs)"

definition parse_csv :: "string \<Rightarrow> string list list option" where
  "parse_csv text = scan FieldStart [] [] [] text"

text \<open>The frame that a random table or the health table is built as, the empty frame when
  the construction raises.\<close>

definition table_of :: "error + (frame \<times> world) \<Rightarrow> frame" where
  "table_of r = (case r of Inl e \<Rightarrow> [] | Inr (df, w) \<Rightarrow> df)"

definition health_table :: frame where
  "health_table = (case df_health of Inl e \<Rightarrow> [] | Inr df \<Rightarrow> df)"

text \<open>
  A frame is well written with \<open>index=False\<close>: it has a column, its text reads back into
  its records, the first record is the list of its column names, and every record has as
  many fields as the frame has columns.
\<close>

definition well_written :: "frame \<Rightarrow> bool" where
  "well_written df =
     (df \<noteq> [] \<and> parse_csv (csv_text False df) = Some (csv_rows False df) \<and>
      hd (csv_rows False df) = map fst df \<and>
      list_all (\<lambda>r. length r = length df) (csv_rows False df))"

section \<open>The files of a run\<close>

text \<open>The content of a path in the working directory after a run of the generator from
  a world, \<open>None\<close> when the run raised or the path was never written.\<close>

definition generated_file :: "world \<Rightarrow> string \<Rightarrow> string option" where
  "generated_file w path =
     (case generate_ngo_data w of
        Inl e \<Rightarrow> None
      | Inr w' \<Rightarrow> files_after Map.empty (history w') path)"

text \<open>The twenty paths in the order of the script, and those of the eighteen tables that
  are written from dict literals alone.\<close>

definition output_paths :: "string list" where
  "output_paths =
    [''ngo_projects.csv'', ''beneficiary_data.csv'', ''large_ngo_projects.csv'',
     ''beneficiary_data_missing.csv'', ''project_updates.csv'', ''health_data.csv'',
     ''messy_data.csv'', ''item_data.csv'', ''advanced_messy_data.csv'', ''transaction_data.csv'',
     ''large_country_data.csv'', ''ngo_projects_cleaned.csv'', ''beneficiary_records.csv'',
     ''aid_distribution.csv'', ''beneficiary_data_dedup.csv'', ''event_logs.csv'',
     ''partner_organizations.csv'', ''health_records.csv'', ''school_data.csv'',
     ''district_poverty.csv'']"

definition literal_paths :: "string list" where
  "literal_paths =
     filter (\<lambda>p. p \<noteq> ''large_ngo_projects.csv'' \<and> p \<noteq> ''large_country_data.csv'') output_paths"

section \<open>Reading a field as a value\<close>

text \<open>
  Modelled from the spec: what it is for a field to parse as numeric, and for a file read
  back to yield the values of a table, is not in the repository either. A field is numeric
  when it is a decimal literal: an optional minus sign, digits, and
  optionally a point followed by digits. \<open>read_decimal\<close> gives the literal's value as a
  mantissa and a number of decimal places, \<open>None\<close> for any other text.
\<close>

definition is_digit :: "char \<Rightarrow> bool" where
  "is_digit c = (c \<in> set ''0123456789'')"

definition digit_value :: "char \<Rightarrow> nat option" where
  "digit_value c = map_of (zip ''0123456789'' [0, 1, 2, 3, 4, 5, 6, 7, 8, 9]) c"

fun read_nat :: "nat \<Rightarrow> string \<Rightarrow> nat option" where
  "read_nat acc [] = Some acc"
| "read_nat acc (c # cs) =
     (case digit_value c of None \<Rightarrow> None | Some d \<Rightarrow> read_nat (10 * acc + d) cs)"

definition read_digits :: "string \<Rightarrow> nat option" where
  "read_digits s = (if s = [] then None else read_nat 0 s)"

definition read_unsigned :: "string \<Rightarrow> (nat \<times> nat) option" where
  "read_unsigned s =
     (case dropWhile (\<lambda>c. c \<noteq> CHR ''.'') s of
        [] \<Rightarrow> map_option (\<lambda>n. (n, 0)) (read_digits s)
      | point # fraction \<Rightarrow>
          (case (read_digits (takeWhile (\<lambda>c. c \<noteq> CHR ''.'') s), read_digits fraction) of
             (Some a, Some b) \<Rightarrow> Some (a * 10 ^ length fraction + b, length fraction)
           | _ \<Rightarrow> None))"

definition read_decimal :: "string \<Rightarrow> (int \<times> nat) option" where
  "read_decimal s =
     (case s of
        [] \<Rightarrow> None
      | c # cs \<Rightarrow>
          if c = CHR ''-'' then map_option (\<lambda>(m, k). (- int m, k)) (read_unsigned cs)
          else map_option (\<lambda>(m, k). (int m, k)) (read_unsigned s))"

definition numeric_or_empty :: "string \<Rightarrow> bool" where
  "numeric_or_empty f = (f = [] \<or> read_decimal f \<noteq> None)"

text \<open>
  A field reads as a cell: a string as itself, character by character; the missing marker
  as the empty field; a number as a decimal literal of the same value (so \<open>25.0\<close> reads as
  the integer 25); a date as its \<open>YYYY-MM-DD\<close> text.
\<close>

fun reads_as :: "cell \<Rightarrow> string \<Rightarrow> bool" where
  "reads_as (IntV i) f = (case read_decimal f of None \<Rightarrow> False | Some (m, k) \<Rightarrow> m = i * 10 ^ k)"
| "reads_as (FloatV m k) f =
     (case read_decimal f of None \<Rightarrow> False | Some (m', k') \<Rightarrow> m' * 10 ^ k = m * 10 ^ k')"
| "reads_as (StrV s) f = (f = s)"
| "reads_as NaN f = (f = [])"
| "reads_as (DateV n) f = (f = show_date n)"

text \<open>
  A text round-trips a table: it reads back into a header record that is the list of the
  table's column names and one record per row, of which every field reads as the cell of
  the table at that row and column, and is empty exactly where the cell is the missing
  marker.
\<close>

definition same_cell :: "cell \<Rightarrow> string \<Rightarrow> bool" where
  "same_cell c f = (reads_as c f \<and> (f = []) = (c = NaN))"

definition round_trips :: "(string \<times> cell list) list \<Rightarrow> string \<Rightarrow> bool" where
  "round_trips table text =
     (case parse_csv text of
        None \<Rightarrow> False
      | Some [] \<Rightarrow> False
      | Some (header # records) \<Rightarrow>
          header = map fst table \<and>
          list_all2 (list_all2 same_cell) (map (row_cells table) [0..<nrows table]) records)"

text \<open>The dict literal that each of the eighteen literal files is written from.\<close>

definition literal_tables :: "(string \<times> (string \<times> cell list) list) list" where
  "literal_tables =
    [(''ngo_projects.csv'', data_projects),
     (''beneficiary_data.csv'', data_beneficiary_basic),
     (''beneficiary_data_missing.csv'', data_missing),
     (''project_updates.csv'', data_project_updates),
     (''health_data.csv'', data_health),
     (''messy_data.csv'', data_messy),
     (''item_data.csv'', data_item),
     (''advanced_messy_data.csv'', data_advanced_messy),
     (''transaction_data.csv'', data_transaction),
     (''ngo_projects_cleaned.csv'', data_projects_cleaned),
     (''beneficiary_records.csv'', data_beneficiary_records),
     (''aid_distribution.csv'', data_aid_distribution),
     (''beneficiary_data_dedup.csv'', data_beneficiary_dedup),
     (''event_logs.csv'', data_event_logs),
     (''partner_organizations.csv'', data_partners),
     (''health_records.csv'', data_health_records),
     (''school_data.csv'', data_school),
     (''district_poverty.csv'', data_poverty)]"

text \<open>Every column of a frame that holds a missing marker is written as fields that are
  numeric or empty.\<close>

definition missing_columns_numeric :: "frame \<Rightarrow> bool" where
  "missing_columns_numeric df =
     list_all (\<lambda>c. NaN \<in> set (snd c) \<longrightarrow> list_all (\<lambda>x. numeric_or_empty (cell_text x)) (snd c)) df"

section \<open>Frames: basic facts\<close>

lemma length_sanitize_array [simp]: "length (sanitize_array xs) = length xs"
  by (simp add: sanitize_array_def)

lemma to_float_NaN_iff [simp]: "to_float c = NaN \<longleftrightarrow> c = NaN"
  by (cases c) auto

lemma sanitize_array_nth_NaN:
  "i < length xs \<Longrightarrow> sanitize_array xs ! i = NaN \<longleftrightarrow> xs ! i = NaN"
  by (simp add: sanitize_array_def)

lemma DataFrame_Inr:
  assumes "DataFrame data = Inr df"
  shows "df = sanitized data"
    and "\<forall>c \<in> set df. length (snd c) = nrows df"
  using assms
  by (fastforce simp: DataFrame_def sanitized_def nrows_def list_all_iff
      split: list.splits if_splits)+

lemma map_of_length:
  "map_of df name = Some s \<Longrightarrow> \<forall>c \<in> set df. length (snd c) = n \<Longrightarrow> length s = n"
  using map_of_SomeD by fastforce

lemma map_of_loc_other:
  "name \<noteq> other \<Longrightarrow>
   map_of (map (\<lambda>c. if fst c = other then (fst c, sanitize_array (set_where msk v (snd c))) else c) df) name
     = map_of df name"
  by (induction df) auto

lemma map_of_loc_same:
  "map_of (map (\<lambda>c. if fst c = name then (fst c, sanitize_array (set_where msk v (snd c))) else c) df) name
     = map_option (\<lambda>s. sanitize_array (set_where msk v s)) (map_of df name)"
  by (induction df) auto

lemma getitem_loc_setitem_other:
  "name \<noteq> other \<Longrightarrow> getitem (loc_setitem msk other v df) name = getitem df name"
  by (auto simp: getitem_def loc_setitem_def map_of_loc_other
      split: option.splits)

lemma map_of_None_iff: "map_of df name = None \<longleftrightarrow> name \<notin> set (map fst df)"
  by (simp add: map_of_eq_None_iff)

lemma getitem_loc_setitem_same:
  "getitem (loc_setitem msk name v df) name =
     Inr (sanitize_array (case map_of df name of
            None \<Rightarrow> map (\<lambda>b. if b then v else NaN) msk
          | Some s \<Rightarrow> set_where msk v s))"
proof (cases "map_of df name")
  case None
  then have "name \<notin> set (map fst df)" by (simp add: map_of_eq_None_iff)
  with None show ?thesis
    by (simp add: getitem_def loc_setitem_def map_add_def)
next
  case (Some s)
  then have "name \<in> set (map fst df)" by (metis map_of_eq_None_iff option.distinct(1) set_map)
  with Some show ?thesis
    by (simp add: getitem_def loc_setitem_def map_of_loc_same)
qed

text \<open>The override leaves the diagnoses as they are and blanks the medication of every Flu
  row, whatever the frame held there, and whether or not it had a medication column.\<close>

lemma flu_override_rows:
  assumes cols: "\<forall>c \<in> set df. length (snd c) = n"
    and ov: "flu_override df = Inr df'"
  shows "flu_rows_unmedicated df'"
proof -
  from ov obtain d where d: "getitem df ''Diagnosis'' = Inr d"
    and df': "df' = loc_setitem (eq_str d ''Flu'') ''Medication'' NaN df"
    by (auto simp: flu_override_def and_then_def split: sum.splits)
  from d have md: "map_of df ''Diagnosis'' = Some d"
    by (auto simp: getitem_def split: option.splits)
  from md cols have ld: "length d = n" by (rule map_of_length)
  have gd: "getitem df' ''Diagnosis'' = Inr d"
    unfolding df' using d by (simp add: getitem_loc_setitem_other)
  define m where "m = sanitize_array (case map_of df ''Medication'' of
            None \<Rightarrow> map (\<lambda>b. if b then NaN else NaN) (eq_str d ''Flu'')
          | Some s \<Rightarrow> set_where (eq_str d ''Flu'') NaN s)"
  have gm: "getitem df' ''Medication'' = Inr m"
    unfolding df' m_def by (rule getitem_loc_setitem_same)
  have lm: "length m = length d"
  proof (cases "map_of df ''Medication''")
    case None
    then show ?thesis by (simp add: m_def eq_str_def)
  next
    case (Some s)
    from Some cols have "length s = n" by (rule map_of_length)
    with Some ld show ?thesis by (simp add: m_def eq_str_def set_where_def)
  qed
  have "m ! i = NaN" if i: "i < length d" and flu: "d ! i = StrV ''Flu''" for i
  proof (cases "map_of df ''Medication''")
    case None
    with i show ?thesis
      by (simp add: m_def eq_str_def sanitize_array_nth_NaN)
  next
    case (Some s)
    from Some cols have "length s = n" by (rule map_of_length)
    with Some ld i flu show ?thesis
      by (simp add: m_def eq_str_def set_where_def sanitize_array_nth_NaN)
  qed
  with lm have "list_all (\<lambda>(dc, mc). dc = StrV ''Flu'' \<longrightarrow> mc = NaN) (zip d m)"
    by (auto simp: list_all_length)
  with gd gm lm show ?thesis by (simp add: flu_rows_unmedicated_def)
qed

lemma health_frame_rows:
  "health_frame data = Inr df \<Longrightarrow> flu_rows_unmedicated df"
proof -
  assume h: "health_frame data = Inr df"
  then obtain df0 where c: "DataFrame data = Inr df0" and o: "flu_override df0 = Inr df"
    by (auto simp: health_frame_def and_then_def split: sum.splits)
  from DataFrame_Inr(2)[OF c] o show ?thesis by (rule flu_override_rows)
qed

lemma df_health_value:
  "df_health = Inr
    [(''PatientID'', map IntV [1, 2, 3, 4, 5, 6, 7, 8, 9, 10]),
     (''Age'', map IntV [30, 45, 22, 60, 35, 50, 28, 42, 55, 65]),
     (''Weight'', map IntV [70, 85, 60, 90, 75, 80, 65, 78, 88, 92]),
     (''Diagnosis'', map StrV [''Flu'', ''Malaria'', ''Flu'', ''Typhoid'', ''Flu'', ''Malaria'',
        ''Flu'', ''Typhoid'', ''Malaria'', ''Flu'']),
     (''Medication'', [NaN, StrV ''B'', NaN, StrV ''C'', NaN, StrV ''B'', NaN,
        StrV ''C'', StrV ''B'', NaN])]"
  by (simp add: df_health_def health_frame_def data_health_def DataFrame_def sanitized_def
      and_then_def flu_override_def getitem_def loc_setitem_def eq_str_def set_where_def
      sanitize_array_def)

lemma df_health_records_value:
  "df_health_records = Inr data_health_records"
  by (simp add: df_health_records_def data_health_records_def DataFrame_def sanitized_def
      sanitize_array_def)

section \<open>The Flu rule\<close>

text \<open>
  C1, as the script has it. The health_data table is built with the Flu rule: its frame is
  constructed and every row whose diagnosis is \<open>Flu\<close> has the missing marker as
  medication, and the same holds for whatever dict literal the two statements are run on,
  so a medication written in the literal for a Flu row is overridden. The health_records
  table is written as it is constructed and has neither a \<open>Diagnosis\<close> nor a
  \<open>Medication\<close> column.
\<close>

theorem flu_medication_overridden:
  "map_sum id flu_rows_unmedicated df_health = Inr True \<and>
   (\<forall>data df. health_frame data = Inr df \<longrightarrow> flu_rows_unmedicated df) \<and>
   map_sum id (\<lambda>df. (getitem df ''Diagnosis'', getitem df ''Medication'')) df_health_records
     = Inr (Inl KeyError, Inl KeyError)"
proof (intro conjI allI impI)
  show "map_sum id flu_rows_unmedicated df_health = Inr True"
    by (simp add: df_health_value flu_rows_unmedicated_def getitem_def)
  show "flu_rows_unmedicated df" if "health_frame data = Inr df" for data df
    using that by (rule health_frame_rows)
  show "map_sum id (\<lambda>df. (getitem df ''Diagnosis'', getitem df ''Medication'')) df_health_records
     = Inr (Inl KeyError, Inl KeyError)"
    by (simp add: df_health_records_value data_health_records_def getitem_def)
qed

text \<open>The rule at a literal whose Flu row names a medication: the medication is gone from
  the frame.\<close>

theorem flu_medication_overridden_witness:
  "health_frame [(''Diagnosis'', [StrV ''Flu'', StrV ''Malaria'']),
                 (''Medication'', [StrV ''A'', StrV ''B''])]
     = Inr [(''Diagnosis'', [StrV ''Flu'', StrV ''Malaria'']), (''Medication'', [NaN, StrV ''B''])] \<and>
   flu_rows_unmedicated
     [(''Diagnosis'', [StrV ''Flu'', StrV ''Malaria'']), (''Medication'', [NaN, StrV ''B''])]"
proof -
  have h: "health_frame [(''Diagnosis'', [StrV ''Flu'', StrV ''Malaria'']),
                 (''Medication'', [StrV ''A'', StrV ''B''])]
     = Inr [(''Diagnosis'', [StrV ''Flu'', StrV ''Malaria'']), (''Medication'', [NaN, StrV ''B''])]"
    by (simp add: health_frame_def DataFrame_def sanitized_def and_then_def flu_override_def
        getitem_def loc_setitem_def eq_str_def set_where_def sanitize_array_def)
  with flu_medication_overridden show ?thesis by blast
qed

text \<open>C1 as the specification words it, for both tables, fails on health_records: the frame
  is constructed, and the Flu rule does not hold of it, because it has no such columns.\<close>

theorem health_records_not_flu_ruled:
  "map_sum id flu_rows_unmedicated df_health_records = Inr False"
  by (simp add: df_health_records_value data_health_records_def flu_rows_unmedicated_def
      getitem_def)

text \<open>
  C10. In the health_data table the medication of a row is missing exactly when its diagnosis
  is \<open>Flu\<close>; and in the dict literal every missing marker of the medication list already
  stands in a Flu row, so the rows with another diagnosis keep the medication written for
  them.
\<close>

theorem health_missing_iff_flu:
  "map_sum id missing_iff_flu df_health = Inr True \<and> literal_missing_on_flu data_health"
  by (simp add: df_health_value missing_iff_flu_def getitem_def literal_missing_on_flu_def
      data_health_def)

theorem health_missing_iff_flu_witness:
  "map_sum id (\<lambda>df. (getitem df ''Diagnosis'', getitem df ''Medication'')) df_health =
     Inr (Inr (map StrV [''Flu'', ''Malaria'', ''Flu'', ''Typhoid'', ''Flu'', ''Malaria'',
                 ''Flu'', ''Typhoid'', ''Malaria'', ''Flu'']),
          Inr [NaN, StrV ''B'', NaN, StrV ''C'', NaN, StrV ''B'', NaN, StrV ''C'', StrV ''B'', NaN]) \<and>
   map_sum id missing_iff_flu df_health = Inr True"
  using health_missing_iff_flu by (simp add: df_health_value getitem_def)

section \<open>The two procedural tables\<close>


lemma and_then_Inr [simp]: "and_then (Inr x) f = f x"
  by (simp add: and_then_def)

lemma and_then_Inl [simp]: "and_then (Inl e) f = Inl e"
  by (simp add: and_then_def)

lemma length_draws [simp]: "length (fst (draws n w)) = n"
  by (simp add: draws_def)

lemma history_draws [simp]: "history (snd (draws n w)) = history w"
  by (simp add: draws_def)

lemma rng_state_draws: "rng_state (snd (draws n w)) = (\<lambda>i. rng_state w (i + n))"
  by (simp add: draws_def)

lemma nth_draws: "i < n \<Longrightarrow> fst (draws n w) ! i = rng_state w i"
  by (simp add: draws_def)

lemma random_choice_Inr:
  "a \<noteq> [] \<Longrightarrow>
   random_choice a n w = Inr (map (\<lambda>r. a ! (r mod length a)) (fst (draws n w)), snd (draws n w))"
  by (simp add: random_choice_def split: prod.splits)

lemma random_randint_Inr:
  "low < high \<Longrightarrow>
   random_randint low high n w =
     Inr (map (\<lambda>r. low + int r mod (high - low)) (fst (draws n w)), snd (draws n w))"
  by (simp add: random_randint_def split: prod.splits)

lemma sanitize_array_IntV [simp]: "sanitize_array (map IntV xs) = map IntV xs"
  by (simp add: sanitize_array_def list_all_iff)

lemma sanitize_array_StrV [simp]: "sanitize_array (map StrV xs) = map StrV xs"
  by (cases xs) (simp_all add: sanitize_array_def)

lemma sanitize_array_DateV [simp]: "sanitize_array (map DateV xs) = map DateV xs"
  by (cases xs) (simp_all add: sanitize_array_def)

lemma length_arange: "length (arange a b) = nat (b - a)"
  by (simp add: arange_def)

lemma arange_1: "arange 1 (int n + 1) = [1..int n]"
  by (simp add: arange_def)

lemma add_days_DateV:
  "length ds = length ks \<Longrightarrow> add_days (map DateV ds) ks = Inr (map DateV (map2 (+) ds ks))"
  by (induction ds ks rule: list_induct2) simp_all

lemma large_data_value:
  "large_data w =
     Inr ([(''ProjectID'', map IntV [1..100000]),
           (''Region'', map StrV (map (\<lambda>r. [''East Africa'', ''South Asia'', ''West Africa'', ''Latin America''] ! (r mod 4))
               (fst (draws 100000 w)))),
           (''Status'', map StrV (map (\<lambda>r. [''Active'', ''Completed'', ''Pending''] ! (r mod 3))
               (fst (draws 100000 (snd (draws 100000 w)))))),
           (''Budget'', map IntV (map (\<lambda>r. 50000 + int r mod 450000)
               (fst (draws 100000 (snd (draws 100000 (snd (draws 100000 w))))))))],
          snd (draws 100000 (snd (draws 100000 (snd (draws 100000 w))))))"
  by (simp add: large_data_def random_choice_Inr random_randint_Inr num_rows_large_def arange_def)

lemma df_large_sample_value:
  "df_large_sample w =
     Inr ([(''ProjectID'', map IntV [1..100000]),
           (''Region'', map StrV (map (\<lambda>r. [''East Africa'', ''South Asia'', ''West Africa'', ''Latin America''] ! (r mod 4))
               (fst (draws 100000 w)))),
           (''Status'', map StrV (map (\<lambda>r. [''Active'', ''Completed'', ''Pending''] ! (r mod 3))
               (fst (draws 100000 (snd (draws 100000 w)))))),
           (''Budget'', map IntV (map (\<lambda>r. 50000 + int r mod 450000)
               (fst (draws 100000 (snd (draws 100000 (snd (draws 100000 w))))))))],
          snd (draws 100000 (snd (draws 100000 (snd (draws 100000 w))))))"
  by (simp add: df_large_sample_def large_data_value DataFrame_def sanitized_def del: map_map)


lemma start_date_value: "start_date = 737425"
  by (simp add: start_date_def datetime_def ymd2ord_def days_before_year_def
      days_before_month_def DAYS_BEFORE_MONTH_def is_leap_def)

lemma end_date_value: "end_date = 738885"
  by (simp add: end_date_def datetime_def ymd2ord_def days_before_year_def
      days_before_month_def DAYS_BEFORE_MONTH_def is_leap_def)

lemma length_date_range: "length date_range = 1460"
  by (simp add: date_range_def py_range_def start_date_value end_date_value
      del: upto_rec_numeral)

lemma nth_date_range: "i < 1460 \<Longrightarrow> date_range ! i = start_date + int i"
  by (simp add: date_range_def py_range_def start_date_value end_date_value
      del: upto_rec_numeral)

lemma date_range_not_Nil: "date_range \<noteq> []"
  using length_date_range by auto

lemma set_date_range: "set date_range = {start_date .. start_date + 1459}"
  by (auto simp: date_range_def py_range_def start_date_value end_date_value image_iff
      simp del: upto_rec_numeral)

lemma countries_not_Nil: "countries \<noteq> []"
  by (simp add: countries_def)

lemma length_countries: "length countries = 8"
  by (simp add: countries_def)

lemma getitem_simps:
  "getitem [] name = Inl KeyError"
  "getitem ((n, s) # df) name = (if n = name then Inr s else getitem df name)"
  by (simp_all add: getitem_def)

lemma df_country_value:
  "df_country w =
     Inr ([(''Country'', map StrV (map (\<lambda>r. countries ! (r mod 8)) (fst (draws 100000 w)))),
           (''EventDate'', map DateV (map (\<lambda>r. date_range ! (r mod 1460))
               (fst (draws 100000 (snd (draws 100000 w)))))),
           (''ReportDate'', map DateV (map2 (+)
               (map (\<lambda>r. date_range ! (r mod 1460)) (fst (draws 100000 (snd (draws 100000 w)))))
               (map (\<lambda>r. 1 + int r mod 29)
                  (fst (draws 100000 (snd (draws 100000 (snd (draws 100000 (snd (draws 100000 w)))))))))))],
          snd (draws 100000 (snd (draws 100000 (snd (draws 100000 (snd (draws 100000 w))))))))"
  by (simp add: df_country_def data_country_def random_choice_Inr random_randint_Inr
      countries_not_Nil date_range_not_Nil length_countries length_date_range
      num_rows_country_def DataFrame_def sanitized_def getitem_simps add_days_DateV
      setitem_def nrows_def del: map_map)


lemma draws_nth2: "i < n \<Longrightarrow> fst (draws n (snd (draws m w))) ! i = rng_state w (i + m)"
  by (simp add: draws_def)

lemma fst_draws_cong:
  "(\<And>i. i < n \<Longrightarrow> rng_state w i = rng_state v i) \<Longrightarrow> fst (draws n w) = fst (draws n v)"
  by (simp add: draws_def)

lemma nrows_Cons [simp]: "nrows ((n, s) # df) = length s"
  by (simp add: nrows_def)

lemma length_csv_rows: "length (csv_rows index df) = Suc (nrows df)"
  by (simp add: csv_rows_def)

text \<open>
  C4. Whatever the random state, both procedural tables are built, and each has exactly
  100000 rows in every column, hence 100001 records in its file with the header. The
  \<open>ProjectID\<close> column of large_ngo_projects is the list of the integers from 1 to 100000 in
  order: none missing, none twice.
\<close>

theorem large_tables_row_counts:
  "(\<exists>df w' ids. df_large_sample w = Inr (df, w') \<and> nrows df = 100000 \<and>
      list_all (\<lambda>c. length (snd c) = 100000) df \<and>
      length (csv_rows False df) = 100001 \<and>
      getitem df ''ProjectID'' = Inr (map IntV ids) \<and> ids = [1..100000] \<and>
      distinct ids \<and> set ids = {1..100000}) \<and>
   (\<exists>df w'. df_country w = Inr (df, w') \<and> nrows df = 100000 \<and>
      list_all (\<lambda>c. length (snd c) = 100000) df \<and>
      length (csv_rows False df) = 100001)"
  by (simp add: df_large_sample_value df_country_value length_csv_rows getitem_simps
      del: map_map upto_rec_numeral)


theorem large_tables_row_counts_witness:
  "(\<exists>df w' ids. df_large_sample (const_world 0) = Inr (df, w') \<and> nrows df = 100000 \<and>
      list_all (\<lambda>c. length (snd c) = 100000) df \<and>
      length (csv_rows False df) = 100001 \<and>
      getitem df ''ProjectID'' = Inr (map IntV ids) \<and> ids = [1..100000] \<and>
      distinct ids \<and> set ids = {1..100000}) \<and>
   (\<exists>df w'. df_country (const_world 0) = Inr (df, w') \<and> nrows df = 100000 \<and>
      list_all (\<lambda>c. length (snd c) = 100000) df \<and>
      length (csv_rows False df) = 100001)"
  using large_tables_row_counts [of "const_world 0"] .

lemma date_range_mod_mem: "date_range ! (r mod 1460) \<in> set date_range"
  by (rule nth_mem) (simp add: length_date_range)

lemma date_range_mod_bounds:
  "start_date \<le> date_range ! (r mod 1460) \<and> date_range ! (r mod 1460) \<le> start_date + 1459"
  using date_range_mod_mem [of r] by (simp add: set_date_range)

lemma countries_mod_mem: "countries ! (r mod 8) \<in> set countries"
  by (rule nth_mem) (simp add: length_countries)

lemma map2_replicate: "map2 f (replicate n a) (replicate n b) = replicate n (f a b)"
  by (induction n) simp_all

lemma fst_draws_const: "fst (draws n (const_world r)) = replicate n r"
  by (simp add: draws_def const_world_def map_replicate_const)

lemma snd_draws_const: "snd (draws n (const_world r)) = const_world r"
  by (simp add: draws_def const_world_def)

lemma randint_const:
  "low < high \<Longrightarrow>
   random_randint low high n (const_world r) =
     Inr (replicate n (low + int r mod (high - low)), const_world r)"
  by (simp add: random_randint_Inr fst_draws_const snd_draws_const)

lemma card_mod_class:
  assumes "0 < n" "j < n"
  shows "card {r. r < n * m \<and> r mod n = j} = (m::nat)"
proof -
  have "{r. r < n * m \<and> r mod n = j} = (\<lambda>q. q * n + j) ` {..<m}"
  proof (intro set_eqI iffI)
    fix r assume "r \<in> {r. r < n * m \<and> r mod n = j}"
    then have r: "r < n * m" "r mod n = j" by simp_all
    have "r div n < m" using r(1) assms(1) by (simp add: less_mult_imp_div_less mult.commute)
    moreover have "r = (r div n) * n + j" using r(2) by (metis div_mult_mod_eq)
    ultimately show "r \<in> (\<lambda>q. q * n + j) ` {..<m}" by blast
  next
    fix r assume "r \<in> (\<lambda>q. q * n + j) ` {..<m}"
    then obtain q where q: "q < m" "r = q * n + j" by auto
    have "q * n + j < q * n + n" using assms(2) by simp
    also have "\<dots> = (q + 1) * n" by simp
    also have "\<dots> \<le> m * n" using q(1) by (intro mult_le_mono1) simp
    finally have "r < n * m" using q(2) by (simp add: mult.commute)
    moreover have "r mod n = j" using q(2) assms(2) by simp
    ultimately show "r \<in> {r. r < n * m \<and> r mod n = j}" by simp
  qed
  moreover have "inj_on (\<lambda>q. q * n + j) {..<m}"
    using assms(1) by (auto simp: inj_on_def)
  ultimately show ?thesis by (simp add: card_image)
qed

lemma randint_offsets_balanced:
  assumes "1 \<le> k" "k \<le> 29"
  shows "card {r. r < 29 * m \<and> 1 + int r mod 29 = k} = m"
proof -
  have "1 + int r mod 29 = k \<longleftrightarrow> r mod 29 = nat (k - 1)" for r :: nat
  proof -
    have "int r mod 29 = int (r mod 29)" by (simp add: zmod_int)
    then show ?thesis using assms by auto
  qed
  then have "{r. r < 29 * m \<and> 1 + int r mod 29 = k} = {r. r < 29 * m \<and> r mod 29 = nat (k - 1)}"
    by simp
  then show ?thesis using assms card_mod_class [of 29 "nat (k - 1)" m] by simp
qed

lemma draws_nth4:
  "i < n \<Longrightarrow>
   fst (draws n (snd (draws a (snd (draws b (snd (draws c w))))))) ! i = rng_state w (i + a + b + c)"
  by (simp add: draws_def add.assoc)


lemma country_rows_attainable:
  assumes E: "length E = 100000" "set E \<subseteq> set date_range"
    and K: "length K = 100000" "\<forall>k \<in> set K. 1 \<le> k \<and> k \<le> 29"
  shows "\<exists>v df v'. df_country v = Inr (df, v') \<and>
      getitem df ''EventDate'' = Inr (map DateV E) \<and>
      getitem df ''ReportDate'' = Inr (map DateV (map2 (+) E K))"
proof -
  define v where "v = \<lparr>rng_state = (\<lambda>j. if 100000 \<le> j \<and> j < 200000 then nat (E ! (j - 100000) - start_date)
      else if 300000 \<le> j \<and> j < 400000 then nat (K ! (j - 300000) - 1) else 0), history = []\<rparr>"
  have Ev: "map (\<lambda>r. date_range ! (r mod 1460)) (fst (draws 100000 (snd (draws 100000 v)))) = E"
  proof (rule nth_equalityI)
    show "length (map (\<lambda>r. date_range ! (r mod 1460)) (fst (draws 100000 (snd (draws 100000 v))))) = length E"
      using E(1) by simp
  next
    fix i assume "i < length (map (\<lambda>r. date_range ! (r mod 1460)) (fst (draws 100000 (snd (draws 100000 v)))))"
    then have i: "i < 100000" by simp
    then have "E ! i \<in> set date_range" using E by (metis nth_mem subsetD)
    then have b: "start_date \<le> E ! i" "E ! i \<le> start_date + 1459" by (simp_all add: set_date_range)
    have r: "fst (draws 100000 (snd (draws 100000 v))) ! i = nat (E ! i - start_date)"
      using i by (simp add: draws_nth2 v_def)
    have lt: "nat (E ! i - start_date) < 1460" using b by simp
    have "date_range ! (nat (E ! i - start_date) mod 1460) = E ! i"
      using lt b nth_date_range [of "nat (E ! i - start_date)"] by simp
    then show "map (\<lambda>r. date_range ! (r mod 1460)) (fst (draws 100000 (snd (draws 100000 v)))) ! i = E ! i"
      using i r by simp
  qed
  have Kv: "map (\<lambda>r. 1 + int r mod 29)
      (fst (draws 100000 (snd (draws 100000 (snd (draws 100000 (snd (draws 100000 v)))))))) = K"
  proof (rule nth_equalityI)
    show "length (map (\<lambda>r. 1 + int r mod 29)
      (fst (draws 100000 (snd (draws 100000 (snd (draws 100000 (snd (draws 100000 v))))))))) = length K"
      using K(1) by simp
  next
    fix i assume "i < length (map (\<lambda>r. 1 + int r mod 29)
      (fst (draws 100000 (snd (draws 100000 (snd (draws 100000 (snd (draws 100000 v)))))))))"
    then have i: "i < 100000" by simp
    then have "K ! i \<in> set K" using K(1) by simp
    then have b: "1 \<le> K ! i" "K ! i \<le> 29" using K(2) by simp_all
    have r: "fst (draws 100000 (snd (draws 100000 (snd (draws 100000 (snd (draws 100000 v))))))) ! i
        = nat (K ! i - 1)"
      using i by (simp add: draws_nth4 v_def)
    have "1 + int (nat (K ! i - 1)) mod 29 = K ! i" using b by simp
    then show "map (\<lambda>r. 1 + int r mod 29)
      (fst (draws 100000 (snd (draws 100000 (snd (draws 100000 (snd (draws 100000 v)))))))) ! i = K ! i"
      using i r by simp
  qed
  show ?thesis
    apply (rule exI [of _ v], rule exI, rule exI)
    apply (intro conjI)
      apply (rule df_country_value)
     apply (simp add: getitem_simps Ev del: map_map)
    apply (simp add: getitem_simps Ev Kv del: map_map)
    done
qed

lemma country_rows_formula:
  "\<exists>df w' E K.
      df_country w = Inr (df, w') \<and>
      getitem df ''EventDate'' = Inr (map DateV E) \<and>
      random_randint 1 30 num_rows_country
         (snd (draws 100000 (snd (draws 100000 (snd (draws 100000 w)))))) = Inr (K, w') \<and>
      length E = 100000 \<and> length K = 100000 \<and>
      getitem df ''ReportDate'' = Inr (map DateV (map2 (+) E K)) \<and>
      (\<forall>k \<in> set K. 1 \<le> k \<and> k \<le> 29) \<and>
      (\<forall>i < 100000. E ! i = date_range ! (rng_state w (100000 + i) mod 1460) \<and>
                     K ! i = 1 + int (rng_state w (300000 + i)) mod 29)"
proof -
  let ?E = "map (\<lambda>r. date_range ! (r mod 1460)) (fst (draws 100000 (snd (draws 100000 w))))"
  let ?K = "map (\<lambda>r. 1 + int r mod 29)
      (fst (draws 100000 (snd (draws 100000 (snd (draws 100000 (snd (draws 100000 w))))))))"
  have rows: "\<forall>i < 100000. ?E ! i = date_range ! (rng_state w (100000 + i) mod 1460) \<and>
                     ?K ! i = 1 + int (rng_state w (300000 + i)) mod 29"
    by (simp add: draws_nth2 rng_state_draws add.commute)
  have K: "\<forall>k \<in> set ?K. 1 \<le> k \<and> k \<le> 29" by auto
  show ?thesis
    apply (rule exI, rule exI, rule exI [of _ ?E], rule exI [of _ ?K])
    apply (intro conjI)
           apply (rule df_country_value)
          apply (simp add: getitem_simps del: map_map)
         apply (simp add: random_randint_Inr num_rows_country_def del: map_map)
        apply simp
       apply simp
      apply (simp add: getitem_simps del: map_map)
     apply (rule K)
    apply (rule rows)
    done
qed


lemma country_row_offset:
  assumes i: "i < 100000"
  shows "(\<exists>df w' E R. df_country (w\<lparr>rng_state := (rng_state w)(300000 + i := r)\<rparr>) = Inr (df, w') \<and>
            getitem df ''EventDate'' = Inr (map DateV E) \<and>
            getitem df ''ReportDate'' = Inr (map DateV R) \<and> R ! i - E ! i = k)
         \<longleftrightarrow> 1 + int r mod 29 = k"
proof -
  let ?v = "w\<lparr>rng_state := (rng_state w)(300000 + i := r)\<rparr>"
  obtain df w' E K where run: "df_country ?v = Inr (df, w')"
    and e: "getitem df ''EventDate'' = Inr (map DateV E)"
    and l: "length E = 100000" "length K = 100000"
    and r: "getitem df ''ReportDate'' = Inr (map DateV (map2 (+) E K))"
    and rows: "\<forall>i < 100000. E ! i = date_range ! (rng_state ?v (100000 + i) mod 1460) \<and>
                     K ! i = 1 + int (rng_state ?v (300000 + i)) mod 29"
    using country_rows_formula [of ?v] by (elim exE conjE)
  have Ki: "K ! i = 1 + int r mod 29" using rows i by simp
  have d: "map2 (+) E K ! i - E ! i = K ! i" using i l by simp
  show ?thesis
  proof
    assume "\<exists>df w' E R. df_country ?v = Inr (df, w') \<and>
            getitem df ''EventDate'' = Inr (map DateV E) \<and>
            getitem df ''ReportDate'' = Inr (map DateV R) \<and> R ! i - E ! i = k"
    then obtain df2 w2 E2 R2 where run2: "df_country ?v = Inr (df2, w2)"
      and e2: "getitem df2 ''EventDate'' = Inr (map DateV E2)"
      and r2: "getitem df2 ''ReportDate'' = Inr (map DateV R2)" and k: "R2 ! i - E2 ! i = k"
      by (elim exE conjE)
    from run run2 have "df2 = df" by simp
    with e e2 r r2 have "map DateV E2 = map DateV E" "map DateV R2 = map DateV (map2 (+) E K)" by simp_all
    moreover have "inj DateV" by (simp add: inj_on_def)
    ultimately have "E2 = E" "R2 = map2 (+) E K" by (simp_all only: inj_map_eq_map)
    with k d Ki show "1 + int r mod 29 = k" by simp
  next
    assume "1 + int r mod 29 = k"
    with run e r d Ki show "\<exists>df w' E R. df_country ?v = Inr (df, w') \<and>
            getitem df ''EventDate'' = Inr (map DateV E) \<and>
            getitem df ''ReportDate'' = Inr (map DateV R) \<and> R ! i - E ! i = k"
      by metis
  qed
qed

lemma country_row_offset_balanced:
  assumes "i < 100000" "1 \<le> k" "k \<le> 29"
  shows "card {r. r < 29 * m \<and>
     (\<exists>df w' E R. df_country (w\<lparr>rng_state := (rng_state w)(300000 + i := r)\<rparr>) = Inr (df, w') \<and>
            getitem df ''EventDate'' = Inr (map DateV E) \<and>
            getitem df ''ReportDate'' = Inr (map DateV R) \<and> R ! i - E ! i = k)} = m"
  using assms by (simp only: country_row_offset randint_offsets_balanced)


text \<open>
  C2. Whatever the random state, the \<open>ReportDate\<close> column of large_country_data is, row by
  row, the \<open>EventDate\<close> column plus the whole number of days that
  \<open>np.random.randint(1, 30, ...)\<close> drew for the row, and each of these numbers lies in the
  inclusive interval from 1 to 29. The offset of row \<open>i\<close> is drawn from a number of the
  random stream of its own (position \<open>300000 + i\<close>, after the three columns sampled
  before), and the event date of the row from another (position \<open>100000 + i\<close>). The draw
  is uniform: in every row, whatever the rest of the stream, the difference
  \<open>ReportDate - EventDate\<close> takes each of the 29 values for exactly \<open>m\<close> of the
  \<open>29 * m\<close> smallest numbers at the position of the row, so a number spread evenly over
  such a span gives each offset with the same frequency, one in 29. Every list of 100000
  offsets from the interval occurs, with every list of event dates; in particular each
  offset can fill the column. The column sampled for \<open>ReportDate\<close> in line 125 (the draws
  at positions 200000 to 299999 of the stream) has no influence on the table:
  \<open>ReportDate\<close> is derived from \<open>EventDate\<close>.
\<close>

theorem report_date_offset:
  "(\<exists>df w' E K.
      df_country w = Inr (df, w') \<and>
      getitem df ''EventDate'' = Inr (map DateV E) \<and>
      random_randint 1 30 num_rows_country
         (snd (draws 100000 (snd (draws 100000 (snd (draws 100000 w)))))) = Inr (K, w') \<and>
      length E = 100000 \<and> length K = 100000 \<and>
      getitem df ''ReportDate'' = Inr (map DateV (map2 (+) E K)) \<and>
      (\<forall>k \<in> set K. 1 \<le> k \<and> k \<le> 29) \<and>
      (\<forall>i < 100000. E ! i = date_range ! (rng_state w (100000 + i) mod 1460) \<and>
                     K ! i = 1 + int (rng_state w (300000 + i)) mod 29)) \<and>
   (\<forall>i < 100000. \<forall>k \<in> {1..29}. \<forall>m.
      card {r. r < 29 * m \<and>
        (\<exists>df w' E R. df_country (w\<lparr>rng_state := (rng_state w)(300000 + i := r)\<rparr>) = Inr (df, w') \<and>
           getitem df ''EventDate'' = Inr (map DateV E) \<and>
           getitem df ''ReportDate'' = Inr (map DateV R) \<and> R ! i - E ! i = k)} = m) \<and>
   (\<forall>E K. length E = 100000 \<and> set E \<subseteq> set date_range \<and>
          length K = 100000 \<and> (\<forall>k \<in> set K. 1 \<le> k \<and> k \<le> 29) \<longrightarrow>
      (\<exists>v df v'. df_country v = Inr (df, v') \<and>
         getitem df ''EventDate'' = Inr (map DateV E) \<and>
         getitem df ''ReportDate'' = Inr (map DateV (map2 (+) E K)))) \<and>
   (\<forall>k \<in> {1..29}. \<exists>v K v'. random_randint 1 30 num_rows_country v = Inr (K, v') \<and> set K = {k}) \<and>
   ((\<forall>i. i < 200000 \<or> 300000 \<le> i \<longrightarrow> rng_state w i = rng_state v i) \<longrightarrow>
      map_sum id fst (df_country w) = map_sum id fst (df_country v))"
proof (intro conjI ballI impI allI)
  show "\<exists>df w' E K.
      df_country w = Inr (df, w') \<and>
      getitem df ''EventDate'' = Inr (map DateV E) \<and>
      random_randint 1 30 num_rows_country
         (snd (draws 100000 (snd (draws 100000 (snd (draws 100000 w)))))) = Inr (K, w') \<and>
      length E = 100000 \<and> length K = 100000 \<and>
      getitem df ''ReportDate'' = Inr (map DateV (map2 (+) E K)) \<and>
      (\<forall>k \<in> set K. 1 \<le> k \<and> k \<le> 29) \<and>
      (\<forall>i < 100000. E ! i = date_range ! (rng_state w (100000 + i) mod 1460) \<and>
                     K ! i = 1 + int (rng_state w (300000 + i)) mod 29)"
    by (rule country_rows_formula)
next
  fix i :: nat and k :: int and m :: nat
  assume "i < 100000" "k \<in> {1..29}"
  then show "card {r. r < 29 * m \<and>
        (\<exists>df w' E R. df_country (w\<lparr>rng_state := (rng_state w)(300000 + i := r)\<rparr>) = Inr (df, w') \<and>
           getitem df ''EventDate'' = Inr (map DateV E) \<and>
           getitem df ''ReportDate'' = Inr (map DateV R) \<and> R ! i - E ! i = k)} = m"
    by (intro country_row_offset_balanced) simp_all
next
  fix E K :: "int list"
  assume "length E = 100000 \<and> set E \<subseteq> set date_range \<and>
          length K = 100000 \<and> (\<forall>k \<in> set K. 1 \<le> k \<and> k \<le> 29)"
  then show "\<exists>v df v'. df_country v = Inr (df, v') \<and>
         getitem df ''EventDate'' = Inr (map DateV E) \<and>
         getitem df ''ReportDate'' = Inr (map DateV (map2 (+) E K))"
    by (intro country_rows_attainable) simp_all
next
  fix k :: int
  assume "k \<in> {1..29}"
  then have k: "1 \<le> k" "k \<le> 29" by simp_all
  then have "1 + int (nat (k - 1)) mod 29 = k" by simp
  then have "random_randint 1 30 num_rows_country (const_world (nat (k - 1)))
      = Inr (replicate num_rows_country k, const_world (nat (k - 1)))"
    by (simp add: randint_const)
  moreover have "set (replicate num_rows_country k) = {k}"
    by (simp add: num_rows_country_def)
  ultimately show "\<exists>v K v'. random_randint 1 30 num_rows_country v = Inr (K, v') \<and> set K = {k}"
    by blast
next
  assume agree: "\<forall>i. i < 200000 \<or> 300000 \<le> i \<longrightarrow> rng_state w i = rng_state v i"
  have a: "fst (draws 100000 w) = fst (draws 100000 v)"
    by (rule fst_draws_cong) (simp add: agree)
  have b: "fst (draws 100000 (snd (draws 100000 w))) = fst (draws 100000 (snd (draws 100000 v)))"
    by (rule fst_draws_cong) (simp add: rng_state_draws agree)
  have c: "fst (draws 100000 (snd (draws 100000 (snd (draws 100000 (snd (draws 100000 w)))))))
         = fst (draws 100000 (snd (draws 100000 (snd (draws 100000 (snd (draws 100000 v)))))))"
    by (rule fst_draws_cong) (simp add: rng_state_draws agree)
  show "map_sum id fst (df_country w) = map_sum id fst (df_country v)"
    by (simp add: df_country_value a b c del: map_map)
qed

text \<open>
  In the world whose random stream is 0, 1, 2, ... the first two rows have the events on
  day 720 and 721 of the range and the offsets 25 and 26; the table is the same in the
  world that differs in the draws of line 125 only; and of the numbers below 58 exactly two
  give the first row the offset 7 when they stand at its position in the stream.
\<close>

theorem report_date_offset_witness:
  "(\<exists>df w' E K.
      df_country \<lparr>rng_state = (\<lambda>i. i), history = []\<rparr> = Inr (df, w') \<and>
      getitem df ''EventDate'' = Inr (map DateV E) \<and>
      getitem df ''ReportDate'' = Inr (map DateV (map2 (+) E K)) \<and>
      E ! 0 = start_date + 720 \<and> K ! 0 = 25 \<and> E ! 1 = start_date + 721 \<and> K ! 1 = 26) \<and>
   map_sum id fst (df_country \<lparr>rng_state = (\<lambda>i. i), history = []\<rparr>) =
     map_sum id fst (df_country
       \<lparr>rng_state = (\<lambda>i. if 200000 \<le> i \<and> i < 300000 then 7 else i), history = []\<rparr>) \<and>
   card {r. r < 29 * 2 \<and>
     (\<exists>df w' E R. df_country \<lparr>rng_state = (\<lambda>i. i)(300000 := r), history = []\<rparr> = Inr (df, w') \<and>
        getitem df ''EventDate'' = Inr (map DateV E) \<and>
        getitem df ''ReportDate'' = Inr (map DateV R) \<and> R ! 0 - E ! 0 = 7)} = (2::nat)"
proof (intro conjI)
  note inst = report_date_offset [of "\<lparr>rng_state = (\<lambda>i. i), history = []\<rparr>"
      "\<lparr>rng_state = (\<lambda>i. if 200000 \<le> i \<and> i < 300000 then 7 else i), history = []\<rparr>"]
  from inst obtain df w' E K where run: "df_country \<lparr>rng_state = (\<lambda>i. i), history = []\<rparr> = Inr (df, w')"
    and e: "getitem df ''EventDate'' = Inr (map DateV E)"
    and r: "getitem df ''ReportDate'' = Inr (map DateV (map2 (+) E K))"
    and rows: "\<forall>i < 100000. E ! i = date_range ! (rng_state \<lparr>rng_state = (\<lambda>i. i), history = []\<rparr> (100000 + i) mod 1460) \<and>
                     K ! i = 1 + int (rng_state \<lparr>rng_state = (\<lambda>i. i), history = []\<rparr> (300000 + i)) mod 29"
    by (elim conjE exE)
  have d: "date_range ! 720 = start_date + 720" "date_range ! 721 = start_date + 721"
    using nth_date_range [of 720] nth_date_range [of 721] by simp_all
  from rows have "E ! 0 = start_date + 720 \<and> K ! 0 = 25"
    using d by (simp del: One_nat_def)
  moreover from rows have "E ! 1 = date_range ! (100001 mod 1460) \<and> K ! 1 = 1 + int 300001 mod 29"
    by (elim allE [of _ 1]) simp
  then have "E ! 1 = start_date + 721 \<and> K ! 1 = 26"
    using d by simp
  ultimately show "\<exists>df w' E K.
      df_country \<lparr>rng_state = (\<lambda>i. i), history = []\<rparr> = Inr (df, w') \<and>
      getitem df ''EventDate'' = Inr (map DateV E) \<and>
      getitem df ''ReportDate'' = Inr (map DateV (map2 (+) E K)) \<and>
      E ! 0 = start_date + 720 \<and> K ! 0 = 25 \<and> E ! 1 = start_date + 721 \<and> K ! 1 = 26"
    using run e r by blast
  have "\<forall>i. i < 200000 \<or> 300000 \<le> i \<longrightarrow>
      rng_state \<lparr>rng_state = (\<lambda>i. i), history = []\<rparr> i =
      rng_state \<lparr>rng_state = (\<lambda>i. if 200000 \<le> i \<and> i < 300000 then 7 else i), history = []\<rparr> i"
    by auto
  with inst show "map_sum id fst (df_country \<lparr>rng_state = (\<lambda>i. i), history = []\<rparr>) =
     map_sum id fst (df_country
       \<lparr>rng_state = (\<lambda>i. if 200000 \<le> i \<and> i < 300000 then 7 else i), history = []\<rparr>)"
    by blast
  from inst [THEN conjunct2, THEN conjunct1, rule_format, of 0 7 2]
  show "card {r. r < 29 * 2 \<and>
     (\<exists>df w' E R. df_country \<lparr>rng_state = (\<lambda>i. i)(300000 := r), history = []\<rparr> = Inr (df, w') \<and>
        getitem df ''EventDate'' = Inr (map DateV E) \<and>
        getitem df ''ReportDate'' = Inr (map DateV R) \<and> R ! 0 - E ! 0 = 7)} = (2::nat)"
    by simp
qed

text \<open>
  C5. Whatever the random state, every value of the \<open>Country\<close> column of
  large_country_data is one of the eight strings of \<open>countries\<close>, which are pairwise
  different, spell the United States in four ways and the United Kingdom in two, and of which
  exactly one starts with a blank. Each of the eight can appear.
\<close>

theorem country_vocabulary:
  "(\<exists>df w' cs. df_country w = Inr (df, w') \<and> getitem df ''Country'' = Inr (map StrV cs) \<and>
      set cs \<subseteq> set countries) \<and>
   countries = [''United States'', ''USA'', ''United States of America'', ''   united states'',
     ''Canada'', ''Mexico'', ''UK'', ''United Kingdom''] \<and>
   length countries = 8 \<and> distinct countries \<and>
   filter (\<lambda>s. take 1 s = '' '') countries = [''   united states''] \<and>
   (\<forall>c \<in> set countries. \<exists>v df v' cs. df_country v = Inr (df, v') \<and>
      getitem df ''Country'' = Inr (map StrV cs) \<and> set cs = {c})"
proof (intro conjI ballI)
  show "\<exists>df w' cs. df_country w = Inr (df, w') \<and> getitem df ''Country'' = Inr (map StrV cs) \<and>
      set cs \<subseteq> set countries"
  proof (intro exI conjI)
    show "df_country w = Inr
       ([(''Country'', map StrV (map (\<lambda>r. countries ! (r mod 8)) (fst (draws 100000 w)))),
           (''EventDate'', map DateV (map (\<lambda>r. date_range ! (r mod 1460))
               (fst (draws 100000 (snd (draws 100000 w)))))),
           (''ReportDate'', map DateV (map2 (+)
               (map (\<lambda>r. date_range ! (r mod 1460)) (fst (draws 100000 (snd (draws 100000 w)))))
               (map (\<lambda>r. 1 + int r mod 29)
                  (fst (draws 100000 (snd (draws 100000 (snd (draws 100000 (snd (draws 100000 w)))))))))))],
          snd (draws 100000 (snd (draws 100000 (snd (draws 100000 (snd (draws 100000 w))))))))"
      by (rule df_country_value)
    show "getitem [(''Country'', map StrV (map (\<lambda>r. countries ! (r mod 8)) (fst (draws 100000 w)))),
           (''EventDate'', map DateV (map (\<lambda>r. date_range ! (r mod 1460))
               (fst (draws 100000 (snd (draws 100000 w)))))),
           (''ReportDate'', map DateV (map2 (+)
               (map (\<lambda>r. date_range ! (r mod 1460)) (fst (draws 100000 (snd (draws 100000 w)))))
               (map (\<lambda>r. 1 + int r mod 29)
                  (fst (draws 100000 (snd (draws 100000 (snd (draws 100000 (snd (draws 100000 w)))))))))))]
          ''Country'' = Inr (map StrV (map (\<lambda>r. countries ! (r mod 8)) (fst (draws 100000 w))))"
      by (simp add: getitem_simps del: map_map)
    show "set (map (\<lambda>r. countries ! (r mod 8)) (fst (draws 100000 w))) \<subseteq> set countries"
      by (auto simp: countries_mod_mem)
  qed
  show "countries = [''United States'', ''USA'', ''United States of America'', ''   united states'',
     ''Canada'', ''Mexico'', ''UK'', ''United Kingdom'']"
    by (simp add: countries_def)
  show "length countries = 8" by (simp add: countries_def)
  show "distinct countries" by (simp add: countries_def)
  show "filter (\<lambda>s. take 1 s = '' '') countries = [''   united states'']"
    by (simp add: countries_def)
next
  fix c assume "c \<in> set countries"
  then obtain j where j: "j < 8" "countries ! j = c"
    by (auto simp: in_set_conv_nth length_countries)
  have "fst (draws 100000 (const_world j)) = replicate 100000 j"
    by (rule fst_draws_const)
  then have "map (\<lambda>r. countries ! (r mod 8)) (fst (draws 100000 (const_world j)))
      = replicate 100000 c"
    using j by simp
  then show "\<exists>v df v' cs. df_country v = Inr (df, v') \<and>
      getitem df ''Country'' = Inr (map StrV cs) \<and> set cs = {c}"
    by (auto simp add: df_country_value getitem_simps simp del: map_map
        intro!: exI [of _ "const_world j"])
qed

theorem country_vocabulary_witness:
  "\<exists>v df v' cs. df_country v = Inr (df, v') \<and>
      getitem df ''Country'' = Inr (map StrV cs) \<and> set cs = {''   united states''}"
proof -
  have "''   united states'' \<in> set countries" by (simp add: countries_def)
  with country_vocabulary [of "const_world 0"] show ?thesis by blast
qed

lemma ymd_2023_12_30: "datetime 2023 12 30 = start_date + 1459"
  by (simp add: start_date_value datetime_def ymd2ord_def days_before_year_def
      days_before_month_def DAYS_BEFORE_MONTH_def is_leap_def)

lemma ymd_2024_1_28: "datetime 2024 1 28 = start_date + 1488"
  by (simp add: start_date_value datetime_def ymd2ord_def days_before_year_def
      days_before_month_def DAYS_BEFORE_MONTH_def is_leap_def)

lemma ord2ymd_values:
  "ord2ymd (start_date + 1459) = (2023, 12, 30)"
  "ord2ymd (start_date + 1488) = (2024, 1, 28)"
  "ord2ymd start_date = (2020, 1, 1)"
  "ord2ymd end_date = (2023, 12, 31)"
  by (simp_all add: start_date_value end_date_value ord2ymd_def Let_def DAYS_BEFORE_MONTH_def
      DAYS_IN_MONTH_def)


lemma zip_map_bounds:
  assumes "\<forall>x \<in> set xs. lo \<le> x \<and> x \<le> hi" "\<forall>k \<in> set ks. 1 \<le> k \<and> k \<le> (29::int)"
  shows "\<forall>d \<in> set (map2 (+) xs ks). lo + 1 \<le> d \<and> d \<le> hi + 29"
proof
  fix d assume "d \<in> set (map2 (+) xs ks)"
  then obtain x k where "(x, k) \<in> set (zip xs ks)" "d = x + k" by auto
  then have "x \<in> set xs" "k \<in> set ks" by (auto dest: set_zip_leftD set_zip_rightD)
  with assms \<open>d = x + k\<close> show "lo + 1 \<le> d \<and> d \<le> hi + 29" by fastforce
qed

lemma show_date_values:
  "show_date (datetime 2023 12 30) = ''2023-12-30''"
  "show_date (datetime 2024 1 28) = ''2024-01-28''"
  unfolding ymd_2023_12_30 ymd_2024_1_28
  by (simp_all add: show_date_def ord2ymd_values zero_pad_def
      show_int_def show_nat.simps digit_char_def)

text \<open>
  C9. Whatever the random state, every \<open>EventDate\<close> of large_country_data lies between
  2020-01-01 and 2023-12-30 inclusive. The configured end date 2023-12-31 is not in
  \<open>date_range\<close>, whose last day is 2023-12-30, because \<open>range\<close> stops one short of the
  number of days between the two dates; so it is never sampled. Every \<open>ReportDate\<close> lies
  between 2020-01-02 and 2024-01-28, and 2024-01-28, which is after the configured end date,
  does occur for some random state.
\<close>

theorem event_date_bounds:
  "(\<exists>df w' E R.
      df_country w = Inr (df, w') \<and>
      getitem df ''EventDate'' = Inr (map DateV E) \<and>
      getitem df ''ReportDate'' = Inr (map DateV R) \<and>
      (\<forall>d \<in> set E. datetime 2020 1 1 \<le> d \<and> d \<le> datetime 2023 12 30) \<and>
      datetime 2023 12 31 \<notin> set E \<and>
      (\<forall>d \<in> set R. datetime 2020 1 2 \<le> d \<and> d \<le> datetime 2024 1 28)) \<and>
   end_date = datetime 2023 12 31 \<and> end_date \<notin> set date_range \<and>
   last date_range = datetime 2023 12 30 \<and>
   (\<exists>v df v' R. df_country v = Inr (df, v') \<and>
      getitem df ''ReportDate'' = Inr (map DateV R) \<and> datetime 2024 1 28 \<in> set R) \<and>
   end_date < datetime 2024 1 28 \<and>
   show_date (datetime 2023 12 30) = ''2023-12-30'' \<and>
   show_date (datetime 2024 1 28) = ''2024-01-28''"
proof -
  let ?E = "map (\<lambda>r. date_range ! (r mod 1460)) (fst (draws 100000 (snd (draws 100000 w))))"
  let ?K = "map (\<lambda>r. 1 + int r mod 29)
      (fst (draws 100000 (snd (draws 100000 (snd (draws 100000 (snd (draws 100000 w))))))))"
  have d1: "datetime 2020 1 1 = start_date" by (simp add: start_date_def)
  have d2: "datetime 2020 1 2 = start_date + 1"
    by (simp add: start_date_value datetime_def ymd2ord_def days_before_year_def
        days_before_month_def DAYS_BEFORE_MONTH_def is_leap_def)
  have d3: "datetime 2023 12 31 = end_date" by (simp add: end_date_def)
  have E: "\<forall>d \<in> set ?E. start_date \<le> d \<and> d \<le> start_date + 1459"
    using date_range_mod_bounds by auto
  have K: "\<forall>k \<in> set ?K. 1 \<le> k \<and> k \<le> 29" by auto
  have R: "\<forall>d \<in> set (map2 (+) ?E ?K). datetime 2020 1 2 \<le> d \<and> d \<le> datetime 2024 1 28"
  proof
    fix d assume "d \<in> set (map2 (+) ?E ?K)"
    with zip_map_bounds [OF E K]
    have "start_date + 1 \<le> d \<and> d \<le> start_date + 1459 + 29" by blast
    then show "datetime 2020 1 2 \<le> d \<and> d \<le> datetime 2024 1 28"
      unfolding d2 ymd_2024_1_28 by simp
  qed
  have notin: "end_date \<notin> set ?E"
    using E by (auto simp: start_date_value end_date_value)
  have first: "\<exists>df w' E R.
      df_country w = Inr (df, w') \<and>
      getitem df ''EventDate'' = Inr (map DateV E) \<and>
      getitem df ''ReportDate'' = Inr (map DateV R) \<and>
      (\<forall>d \<in> set E. datetime 2020 1 1 \<le> d \<and> d \<le> datetime 2023 12 30) \<and>
      datetime 2023 12 31 \<notin> set E \<and>
      (\<forall>d \<in> set R. datetime 2020 1 2 \<le> d \<and> d \<le> datetime 2024 1 28)"
    apply (rule exI, rule exI, rule exI [of _ ?E], rule exI [of _ "map2 (+) ?E ?K"])
    apply (intro conjI)
         apply (rule df_country_value)
        apply (simp add: getitem_simps del: map_map)
       apply (simp add: getitem_simps del: map_map)
    using E apply (simp only: d1 ymd_2023_12_30)
    using notin apply (simp only: d3 not_False_eq_True)
    using R apply assumption
    done
  have last: "last date_range = datetime 2023 12 30"
    using nth_date_range [of 1459]
    by (simp add: last_conv_nth date_range_not_Nil length_date_range ymd_2023_12_30)
  have attained: "\<exists>v df v' R. df_country v = Inr (df, v') \<and>
      getitem df ''ReportDate'' = Inr (map DateV R) \<and> datetime 2024 1 28 \<in> set R"
  proof -
    have e: "date_range ! 1459 = start_date + 1459"
      using nth_date_range [of 1459] by simp
    have "map2 (+)
        (map (\<lambda>r. date_range ! (r mod 1460))
           (fst (draws 100000 (snd (draws 100000 (const_world 42339))))))
        (map (\<lambda>r. 1 + int r mod 29)
           (fst (draws 100000 (snd (draws 100000 (snd (draws 100000 (snd (draws 100000 (const_world 42339))))))))))
       = replicate 100000 (start_date + 1488)"
      by (simp add: snd_draws_const fst_draws_const e map2_replicate)
    then show ?thesis
      unfolding ymd_2024_1_28
      apply (intro exI [of _ "const_world 42339"])
      apply (rule exI, rule exI, rule exI [of _ "replicate 100000 (start_date + 1488)"])
      apply (intro conjI)
        apply (rule df_country_value)
       apply (simp add: getitem_simps del: map_map)
      apply simp
      done
  qed
  have notin_range: "end_date \<notin> set date_range"
    by (simp add: set_date_range start_date_value end_date_value)
  have later: "end_date < datetime 2024 1 28"
    unfolding ymd_2024_1_28 by (simp add: start_date_value end_date_value)
  from first d3 [symmetric] notin_range last attained later show_date_values
  show ?thesis by (intro conjI)
qed

text \<open>The random state whose every draw is 42339 picks the last day of \<open>date_range\<close> for
  every event and the offset 29 for every report.\<close>

theorem event_date_bounds_witness:
  "(\<exists>df w'. df_country (const_world 42339) = Inr (df, w') \<and>
      getitem df ''EventDate'' = Inr (replicate 100000 (DateV (datetime 2023 12 30))) \<and>
      getitem df ''ReportDate'' = Inr (replicate 100000 (DateV (datetime 2024 1 28)))) \<and>
   end_date < datetime 2024 1 28 \<and> last date_range = datetime 2023 12 30"
proof -
  have e: "date_range ! 1459 = start_date + 1459"
    using nth_date_range [of 1459] by simp
  have "\<exists>df w'. df_country (const_world 42339) = Inr (df, w') \<and>
      getitem df ''EventDate'' = Inr (replicate 100000 (DateV (datetime 2023 12 30))) \<and>
      getitem df ''ReportDate'' = Inr (replicate 100000 (DateV (datetime 2024 1 28)))"
    unfolding ymd_2023_12_30 ymd_2024_1_28
    by (simp add: df_country_value getitem_simps snd_draws_const fst_draws_const e
        map2_replicate del: map_map)
  with event_date_bounds [of "const_world 42339"] show ?thesis by blast
qed

section \<open>The writer and the parser\<close>

lemma scan_plain:
  "\<not> list_ex special_char s \<Longrightarrow> m = FieldStart \<or> m = Plain \<Longrightarrow>
   scan m f r rs (s @ t) = scan (if s = [] then m else Plain) (f @ s) r rs t"
proof (induction s arbitrary: m f)
  case Nil
  then show ?case by simp
next
  case (Cons c s)
  from Cons.prems have sc: "\<not> special_char c" and s: "\<not> list_ex special_char s"
    by simp_all
  from sc have c: "c \<noteq> CHR '',''" "c \<noteq> dquote" "c \<noteq> newline"
    by (simp_all add: special_char_def)
  from Cons.prems(2) c have "scan m f r rs ((c # s) @ t) = scan Plain (f @ [c]) r rs (s @ t)"
    by auto
  also have "\<dots> = scan (if s = [] then Plain else Plain) ((f @ [c]) @ s) r rs t"
    using s by (intro Cons.IH) simp_all
  finally show ?case by simp
qed

lemma scan_quoted:
  "t = [] \<or> hd t = CHR '','' \<or> hd t = newline \<Longrightarrow>
   scan InQuotes f r rs (escape s @ dquote # t) = scan AfterQuote (f @ s) r rs t"
proof (induction s arbitrary: f)
  case Nil
  then show ?case by (simp add: escape_def)
next
  case (Cons c s)
  have IH: "scan InQuotes (f @ [c]) r rs (escape s @ dquote # t) = scan AfterQuote ((f @ [c]) @ s) r rs t"
    using Cons.prems by (rule Cons.IH)
  show ?case
  proof (cases "c = dquote")
    case True
    have nd: "dquote \<noteq> CHR '',''" "dquote \<noteq> newline" by (simp_all add: dquote_def newline_def)
    have "scan InQuotes f r rs (escape (c # s) @ dquote # t)
        = scan InQuotes f r rs (dquote # dquote # escape s @ dquote # t)"
      using True by (simp add: escape_def)
    also have "\<dots> = scan InQuotes (f @ [dquote]) r rs (escape s @ dquote # t)"
      using nd by simp
    finally show ?thesis using IH True by simp
  next
    case False
    then have "scan InQuotes f r rs (escape (c # s) @ dquote # t)
        = scan InQuotes (f @ [c]) r rs (escape s @ dquote # t)"
      by (simp add: escape_def)
    then show ?thesis using IH by simp
  qed
qed

lemma scan_field:
  assumes t: "t = [] \<or> hd t = CHR '','' \<or> hd t = newline"
  shows "\<exists>m. m \<noteq> InQuotes \<and> (m = FieldStart \<longrightarrow> s = []) \<and>
     scan FieldStart [] r rs (quote_field s @ t) = scan m s r rs t"
proof (cases "list_ex special_char s")
  case False
  then have "scan FieldStart [] r rs (quote_field s @ t)
      = scan (if s = [] then FieldStart else Plain) s r rs t"
    using scan_plain [of s FieldStart "[]" r rs t] by (simp add: quote_field_def)
  then show ?thesis by (intro exI [of _ "if s = [] then FieldStart else Plain"]) simp
next
  case True
  have nd: "dquote \<noteq> CHR '',''" "dquote \<noteq> newline" by (simp_all add: dquote_def newline_def)
  have "scan FieldStart [] r rs (quote_field s @ t)
      = scan InQuotes [] r rs (escape s @ dquote # t)"
    using True nd by (simp add: quote_field_def)
  also have "\<dots> = scan AfterQuote s r rs t"
    using scan_quoted [OF t, of "[]" r rs s] by simp
  finally show ?thesis by (intro exI [of _ AfterQuote]) simp
qed

lemma scan_comma:
  "m \<noteq> InQuotes \<Longrightarrow> scan m f r rs (CHR '','' # t) = scan FieldStart [] (r @ [f]) rs t"
  by simp

lemma scan_newline:
  "m \<noteq> InQuotes \<Longrightarrow> scan m f r rs (newline # t) = scan FieldStart [] [] (rs @ [r @ [f]]) t"
  by (simp add: newline_def)

lemma scan_fields:
  "fs \<noteq> [] \<Longrightarrow>
   scan FieldStart [] r rs (join_fields (map quote_field fs) @ newline # t)
     = scan FieldStart [] [] (rs @ [r @ fs]) t"
proof (induction fs arbitrary: r rule: join_fields.induct)
  case 1
  then show ?case by simp
next
  case (2 f)
  obtain m where m: "m \<noteq> InQuotes"
    and eq: "scan FieldStart [] r rs (quote_field f @ newline # t) = scan m f r rs (newline # t)"
    using scan_field [of "newline # t" f r rs] by auto
  show ?case using eq scan_newline [OF m] by simp
next
  case (3 f g fs)
  obtain m where m: "m \<noteq> InQuotes"
    and eq: "scan FieldStart [] r rs (quote_field f @ CHR '','' # join_fields (map quote_field (g # fs)) @ newline # t)
       = scan m f r rs (CHR '','' # join_fields (map quote_field (g # fs)) @ newline # t)"
    using scan_field [of "CHR '','' # join_fields (map quote_field (g # fs)) @ newline # t" f r rs]
    by auto
  have "scan FieldStart [] r rs (join_fields (map quote_field (f # g # fs)) @ newline # t)
      = scan FieldStart [] (r @ [f]) rs (join_fields (map quote_field (g # fs)) @ newline # t)"
    using eq scan_comma [OF m] by simp
  also have "\<dots> = scan FieldStart [] [] (rs @ [(r @ [f]) @ (g # fs)]) t"
    by (rule "3.IH") simp
  finally show ?case by simp
qed

lemma scan_writerow:
  "fs \<noteq> [] \<Longrightarrow> scan FieldStart [] [] rs (writerow fs @ t) = scan FieldStart [] [] (rs @ [fs]) t"
proof (cases "fs = [[]]")
  case True
  have nd: "dquote \<noteq> CHR '',''" "dquote \<noteq> newline" by (simp_all add: dquote_def newline_def)
  show ?thesis using True nd by (simp add: writerow_def newline_def)
next
  case False
  assume "fs \<noteq> []"
  then show ?thesis using False scan_fields [of fs "[]" rs t] by (simp add: writerow_def)
qed

lemma scan_rows:
  "list_all (\<lambda>r. r \<noteq> []) rows \<Longrightarrow>
   scan FieldStart [] [] rs (concat (map writerow rows)) = Some (rs @ rows)"
proof (induction rows arbitrary: rs)
  case Nil
  then show ?case by simp
next
  case (Cons r rows)
  then show ?case using scan_writerow [of r rs "concat (map writerow rows)"] by simp
qed

lemma parse_csv_text:
  "df \<noteq> [] \<Longrightarrow> parse_csv (csv_text index df) = Some (csv_rows index df)"
  unfolding parse_csv_def csv_text_def
  using scan_rows [of "csv_rows index df" "[]"]
  by (simp add: csv_rows_def row_cells_def list_all_iff)

section \<open>The run of the generator\<close>

lemma fst_draws_history [simp]: "fst (draws n (w\<lparr>history := h\<rparr>)) = fst (draws n w)"
  by (simp add: draws_def)

lemma snd_draws_history [simp]:
  "snd (draws n (w\<lparr>history := h\<rparr>)) = (snd (draws n w))\<lparr>history := h\<rparr>"
  by (simp add: draws_def)

lemma DataFrame_literals:
  "DataFrame data_projects = Inr (sanitized data_projects)"
  "DataFrame data_beneficiary_basic = Inr (sanitized data_beneficiary_basic)"
  "DataFrame data_missing = Inr (sanitized data_missing)"
  "DataFrame data_project_updates = Inr (sanitized data_project_updates)"
  "DataFrame data_messy = Inr (sanitized data_messy)"
  "DataFrame data_item = Inr (sanitized data_item)"
  "DataFrame data_advanced_messy = Inr (sanitized data_advanced_messy)"
  "DataFrame data_transaction = Inr (sanitized data_transaction)"
  "DataFrame data_projects_cleaned = Inr (sanitized data_projects_cleaned)"
  "DataFrame data_beneficiary_records = Inr (sanitized data_beneficiary_records)"
  "DataFrame data_aid_distribution = Inr (sanitized data_aid_distribution)"
  "DataFrame data_beneficiary_dedup = Inr (sanitized data_beneficiary_dedup)"
  "DataFrame data_event_logs = Inr (sanitized data_event_logs)"
  "DataFrame data_partners = Inr (sanitized data_partners)"
  "DataFrame data_health_records = Inr (sanitized data_health_records)"
  "DataFrame data_school = Inr (sanitized data_school)"
  "DataFrame data_poverty = Inr (sanitized data_poverty)"
  by (simp_all add: DataFrame_def data_projects_def data_beneficiary_basic_def data_missing_def
      data_project_updates_def data_messy_def data_item_def data_advanced_messy_def
      data_transaction_def data_projects_cleaned_def data_beneficiary_records_def
      data_aid_distribution_def data_beneficiary_dedup_def data_event_logs_def
      data_partners_def data_health_records_def data_school_def data_poverty_def)

lemma df_health_table: "df_health = Inr health_table"
  by (simp add: health_table_def df_health_value)

lemma df_large_sample_table:
  "df_large_sample w = Inr (table_of (df_large_sample w), snd (draws 100000 (snd (draws 100000 (snd (draws 100000 w))))))"
  by (simp add: df_large_sample_value table_of_def del: map_map)

lemma df_country_table:
  "df_country w = Inr (table_of (df_country w),
      snd (draws 100000 (snd (draws 100000 (snd (draws 100000 (snd (draws 100000 w))))))))"
  by (simp add: df_country_value table_of_def del: map_map)

lemma table_of_history [simp]:
  "table_of (df_large_sample (w\<lparr>history := h\<rparr>)) = table_of (df_large_sample w)"
  "table_of (df_country (w\<lparr>history := h\<rparr>)) = table_of (df_country w)"
  by (simp_all add: df_large_sample_value df_country_value table_of_def del: map_map)

lemma write_csv_Inr: "write_csv (Inr df) path w = Inr (to_csv df path False w)"
  by (simp add: write_csv_def)

lemma write_large:
  "write_random_csv df_large_sample path w =
     Inr (to_csv (table_of (df_large_sample w)) path False
            (snd (draws 100000 (snd (draws 100000 (snd (draws 100000 w)))))))"
  by (subst write_random_csv_def, subst df_large_sample_table) simp

lemma write_country:
  "write_random_csv df_country path w =
     Inr (to_csv (table_of (df_country w)) path False
            (snd (draws 100000 (snd (draws 100000 (snd (draws 100000 (snd (draws 100000 w)))))))))"
  by (subst write_random_csv_def, subst df_country_table) simp

lemma history_to_csv [simp]:
  "history (to_csv df path index w) = history w @ [FileWritten path (csv_text index df)]"
  by (simp add: to_csv_def)

lemma to_csv_as_update:
  "to_csv df path index w = w\<lparr>history := history w @ [FileWritten path (csv_text index df)]\<rparr>"
  by (simp add: to_csv_def)

lemma generate_ngo_data_history:
  "\<exists>w'. generate_ngo_data w = Inr w' \<and>
     history w' = history w @
       [FileWritten ''ngo_projects.csv'' (csv_text False (sanitized data_projects)),
        FileWritten ''beneficiary_data.csv'' (csv_text False (sanitized data_beneficiary_basic)),
        FileWritten ''large_ngo_projects.csv'' (csv_text False (table_of (df_large_sample w))),
        FileWritten ''beneficiary_data_missing.csv'' (csv_text False (sanitized data_missing)),
        FileWritten ''project_updates.csv'' (csv_text False (sanitized data_project_updates)),
        FileWritten ''health_data.csv'' (csv_text False health_table),
        FileWritten ''messy_data.csv'' (csv_text False (sanitized data_messy)),
        FileWritten ''item_data.csv'' (csv_text False (sanitized data_item)),
        FileWritten ''advanced_messy_data.csv'' (csv_text False (sanitized data_advanced_messy)),
        FileWritten ''transaction_data.csv'' (csv_text False (sanitized data_transaction)),
        FileWritten ''large_country_data.csv''
          (csv_text False (table_of (df_country
             (snd (draws 100000 (snd (draws 100000 (snd (draws 100000 w))))))))),
        FileWritten ''ngo_projects_cleaned.csv'' (csv_text False (sanitized data_projects_cleaned)),
        FileWritten ''beneficiary_records.csv'' (csv_text False (sanitized data_beneficiary_records)),
        FileWritten ''aid_distribution.csv'' (csv_text False (sanitized data_aid_distribution)),
        FileWritten ''beneficiary_data_dedup.csv'' (csv_text False (sanitized data_beneficiary_dedup)),
        FileWritten ''event_logs.csv'' (csv_text False (sanitized data_event_logs)),
        FileWritten ''partner_organizations.csv'' (csv_text False (sanitized data_partners)),
        FileWritten ''health_records.csv'' (csv_text False (sanitized data_health_records)),
        FileWritten ''school_data.csv'' (csv_text False (sanitized data_school)),
        FileWritten ''district_poverty.csv'' (csv_text False (sanitized data_poverty)),
        Printed ''All synthetic NGO datasets generated successfully.'']"
  by (simp add: generate_ngo_data_def DataFrame_literals df_health_table df_health_records_def
      write_csv_Inr write_large write_country to_csv_as_update py_print_def)

lemma map_fst_sanitized [simp]: "map fst (sanitized data) = map fst data"
  by (simp add: sanitized_def comp_def)

lemma sanitized_Nil_iff [simp]: "sanitized data = [] \<longleftrightarrow> data = []"
  by (simp add: sanitized_def)

lemma columns_literals:
  "map fst data_projects = [''ProjectID'', ''Region'', ''StartDate'', ''EndDate'', ''Budget'']"
  "map fst data_beneficiary_basic =
     [''BeneficiaryID'', ''Age'', ''Gender'', ''Location'', ''AssistanceType'']"
  "map fst data_missing = [''BeneficiaryID'', ''Age'', ''Gender'', ''Location'', ''AssistanceType'']"
  "map fst data_project_updates = [''UpdateID'', ''ProjectID'', ''Date'', ''Status'', ''Notes'']"
  "map fst data_messy = [''ProjectID'', ''Region'', ''Status'', ''Budget'']"
  "map fst data_item = [''Item'', ''Quantity'', ''Price'']"
  "map fst data_advanced_messy = [''ProjectCode'', ''Description'', ''StartDate'', ''Beneficiaries'']"
  "map fst data_transaction = [''TransactionID'', ''Timestamp'', ''Amount'']"
  "map fst data_projects_cleaned = [''ProjectID'', ''Region'', ''Budget'', ''Status'', ''StartDate'']"
  "map fst data_beneficiary_records =
     [''BeneficiaryID'', ''Age'', ''Gender'', ''Location'', ''AssistanceReceived'']"
  "map fst data_aid_distribution = [''Country'', ''AidType'', ''AmountUSD'', ''Year'']"
  "map fst data_beneficiary_dedup =
     [''BeneficiaryID'', ''Age'', ''Gender'', ''AssistanceType'', ''Location'']"
  "map fst data_event_logs = [''LogID'', ''Timestamp'', ''EventType'', ''UserID'']"
  "map fst data_partners = [''OrgID'', ''OrgName'', ''ContactPerson'', ''City'']"
  "map fst data_health_records =
     [''PatientID'', ''WeightKg'', ''HeightCm'', ''BloodPressureSystolic'', ''BloodPressureDiastolic'']"
  "map fst data_school =
     [''SchoolID'', ''District'', ''Enrollment'', ''FundingPerStudent'', ''TestScoreAverage'']"
  "map fst data_poverty = [''District'', ''PovertyRate'']"
  by (simp_all add: data_projects_def data_beneficiary_basic_def data_missing_def
      data_project_updates_def data_messy_def data_item_def data_advanced_messy_def
      data_transaction_def data_projects_cleaned_def data_beneficiary_records_def
      data_aid_distribution_def data_beneficiary_dedup_def data_event_logs_def
      data_partners_def data_health_records_def data_school_def data_poverty_def)

lemma columns_health_table:
  "map fst health_table = [''PatientID'', ''Age'', ''Weight'', ''Diagnosis'', ''Medication'']"
  by (simp add: health_table_def df_health_value)

lemma columns_large_sample:
  "map fst (table_of (df_large_sample w)) = [''ProjectID'', ''Region'', ''Status'', ''Budget'']"
  by (simp add: df_large_sample_value table_of_def del: map_map)

lemma columns_country:
  "map fst (table_of (df_country w)) = [''Country'', ''EventDate'', ''ReportDate'']"
  by (simp add: df_country_value table_of_def del: map_map)

lemma Nil_iff_columns: "df = [] \<longleftrightarrow> map fst df = []"
  by simp

lemma hd_csv_rows: "hd (csv_rows False df) = map fst df"
  by (simp add: csv_rows_def)

lemma length_csv_rows_each: "list_all (\<lambda>r. length r = length df) (csv_rows False df)"
  by (simp add: csv_rows_def row_cells_def list_all_iff)

lemma well_writtenI: "map fst df = c # cs \<Longrightarrow> well_written df"
  unfolding well_written_def
  by (auto simp: parse_csv_text hd_csv_rows length_csv_rows_each)

text \<open>
  C7. From any world the run succeeds. What it adds to the history is twenty writes, to the
  twenty paths of \<open>output_paths\<close> (pairwise different, bare file names and so in the
  working directory), followed
  by one print of the success message: nothing is printed before the last file is written,
  and nothing else happens. Every file is the text of its frame written with
  \<open>index=False\<close>: it reads back, as comma-delimited text, into the records of the frame,
  the first of which is the list of the column names in the order of the dict literal, and
  every record has one field per column, so there is no index column.
\<close>

theorem twenty_files_one_message:
  "\<exists>w' tables.
     generate_ngo_data w = Inr w' \<and>
     history w' = history w @ map (\<lambda>t. FileWritten (fst t) (csv_text False (snd t))) tables @
        [Printed ''All synthetic NGO datasets generated successfully.''] \<and>
     map fst tables = output_paths \<and> length output_paths = 20 \<and> distinct output_paths \<and>
     list_all (\<lambda>p. CHR ''/'' \<notin> set p) output_paths \<and>
     list_all (\<lambda>t. well_written (snd t)) tables \<and>
     map (\<lambda>t. map fst (snd t)) tables =
       [[''ProjectID'', ''Region'', ''StartDate'', ''EndDate'', ''Budget''],
        [''BeneficiaryID'', ''Age'', ''Gender'', ''Location'', ''AssistanceType''],
        [''ProjectID'', ''Region'', ''Status'', ''Budget''],
        [''BeneficiaryID'', ''Age'', ''Gender'', ''Location'', ''AssistanceType''],
        [''UpdateID'', ''ProjectID'', ''Date'', ''Status'', ''Notes''],
        [''PatientID'', ''Age'', ''Weight'', ''Diagnosis'', ''Medication''],
        [''ProjectID'', ''Region'', ''Status'', ''Budget''],
        [''Item'', ''Quantity'', ''Price''],
        [''ProjectCode'', ''Description'', ''StartDate'', ''Beneficiaries''],
        [''TransactionID'', ''Timestamp'', ''Amount''],
        [''Country'', ''EventDate'', ''ReportDate''],
        [''ProjectID'', ''Region'', ''Budget'', ''Status'', ''StartDate''],
        [''BeneficiaryID'', ''Age'', ''Gender'', ''Location'', ''AssistanceReceived''],
        [''Country'', ''AidType'', ''AmountUSD'', ''Year''],
        [''BeneficiaryID'', ''Age'', ''Gender'', ''AssistanceType'', ''Location''],
        [''LogID'', ''Timestamp'', ''EventType'', ''UserID''],
        [''OrgID'', ''OrgName'', ''ContactPerson'', ''City''],
        [''PatientID'', ''WeightKg'', ''HeightCm'', ''BloodPressureSystolic'',
         ''BloodPressureDiastolic''],
        [''SchoolID'', ''District'', ''Enrollment'', ''FundingPerStudent'', ''TestScoreAverage''],
        [''District'', ''PovertyRate'']]"
proof -
  let ?tables =
    "[(''ngo_projects.csv'', sanitized data_projects),
      (''beneficiary_data.csv'', sanitized data_beneficiary_basic),
      (''large_ngo_projects.csv'', table_of (df_large_sample w)),
      (''beneficiary_data_missing.csv'', sanitized data_missing),
      (''project_updates.csv'', sanitized data_project_updates),
      (''health_data.csv'', health_table),
      (''messy_data.csv'', sanitized data_messy),
      (''item_data.csv'', sanitized data_item),
      (''advanced_messy_data.csv'', sanitized data_advanced_messy),
      (''transaction_data.csv'', sanitized data_transaction),
      (''large_country_data.csv'', table_of (df_country
             (snd (draws 100000 (snd (draws 100000 (snd (draws 100000 w)))))))),
      (''ngo_projects_cleaned.csv'', sanitized data_projects_cleaned),
      (''beneficiary_records.csv'', sanitized data_beneficiary_records),
      (''aid_distribution.csv'', sanitized data_aid_distribution),
      (''beneficiary_data_dedup.csv'', sanitized data_beneficiary_dedup),
      (''event_logs.csv'', sanitized data_event_logs),
      (''partner_organizations.csv'', sanitized data_partners),
      (''health_records.csv'', sanitized data_health_records),
      (''school_data.csv'', sanitized data_school),
      (''district_poverty.csv'', sanitized data_poverty)]"
  from generate_ngo_data_history [of w] obtain w' where run: "generate_ngo_data w = Inr w'"
    and h0: "history w' = history w @
       [FileWritten ''ngo_projects.csv'' (csv_text False (sanitized data_projects)),
        FileWritten ''beneficiary_data.csv'' (csv_text False (sanitized data_beneficiary_basic)),
        FileWritten ''large_ngo_projects.csv'' (csv_text False (table_of (df_large_sample w))),
        FileWritten ''beneficiary_data_missing.csv'' (csv_text False (sanitized data_missing)),
        FileWritten ''project_updates.csv'' (csv_text False (sanitized data_project_updates)),
        FileWritten ''health_data.csv'' (csv_text False health_table),
        FileWritten ''messy_data.csv'' (csv_text False (sanitized data_messy)),
        FileWritten ''item_data.csv'' (csv_text False (sanitized data_item)),
        FileWritten ''advanced_messy_data.csv'' (csv_text False (sanitized data_advanced_messy)),
        FileWritten ''transaction_data.csv'' (csv_text False (sanitized data_transaction)),
        FileWritten ''large_country_data.csv''
          (csv_text False (table_of (df_country
             (snd (draws 100000 (snd (draws 100000 (snd (draws 100000 w))))))))),
        FileWritten ''ngo_projects_cleaned.csv'' (csv_text False (sanitized data_projects_cleaned)),
        FileWritten ''beneficiary_records.csv'' (csv_text False (sanitized data_beneficiary_records)),
        FileWritten ''aid_distribution.csv'' (csv_text False (sanitized data_aid_distribution)),
        FileWritten ''beneficiary_data_dedup.csv'' (csv_text False (sanitized data_beneficiary_dedup)),
        FileWritten ''event_logs.csv'' (csv_text False (sanitized data_event_logs)),
        FileWritten ''partner_organizations.csv'' (csv_text False (sanitized data_partners)),
        FileWritten ''health_records.csv'' (csv_text False (sanitized data_health_records)),
        FileWritten ''school_data.csv'' (csv_text False (sanitized data_school)),
        FileWritten ''district_poverty.csv'' (csv_text False (sanitized data_poverty)),
        Printed ''All synthetic NGO datasets generated successfully.'']"
    by (elim exE conjE)
  have h: "history w' = history w @ map (\<lambda>t. FileWritten (fst t) (csv_text False (snd t))) ?tables @
        [Printed ''All synthetic NGO datasets generated successfully.'']"
    unfolding h0 by simp
  have paths: "map fst ?tables = output_paths" by (simp add: output_paths_def)
  have n: "length output_paths = 20" by (simp add: output_paths_def)
  have d: "distinct output_paths" by (simp add: output_paths_def)
  have bare: "list_all (\<lambda>p. CHR ''/'' \<notin> set p) output_paths" by (simp add: output_paths_def)
  have cols: "map (\<lambda>t. map fst (snd t)) ?tables =
       [[''ProjectID'', ''Region'', ''StartDate'', ''EndDate'', ''Budget''],
        [''BeneficiaryID'', ''Age'', ''Gender'', ''Location'', ''AssistanceType''],
        [''ProjectID'', ''Region'', ''Status'', ''Budget''],
        [''BeneficiaryID'', ''Age'', ''Gender'', ''Location'', ''AssistanceType''],
        [''UpdateID'', ''ProjectID'', ''Date'', ''Status'', ''Notes''],
        [''PatientID'', ''Age'', ''Weight'', ''Diagnosis'', ''Medication''],
        [''ProjectID'', ''Region'', ''Status'', ''Budget''],
        [''Item'', ''Quantity'', ''Price''],
        [''ProjectCode'', ''Description'', ''StartDate'', ''Beneficiaries''],
        [''TransactionID'', ''Timestamp'', ''Amount''],
        [''Country'', ''EventDate'', ''ReportDate''],
        [''ProjectID'', ''Region'', ''Budget'', ''Status'', ''StartDate''],
        [''BeneficiaryID'', ''Age'', ''Gender'', ''Location'', ''AssistanceReceived''],
        [''Country'', ''AidType'', ''AmountUSD'', ''Year''],
        [''BeneficiaryID'', ''Age'', ''Gender'', ''AssistanceType'', ''Location''],
        [''LogID'', ''Timestamp'', ''EventType'', ''UserID''],
        [''OrgID'', ''OrgName'', ''ContactPerson'', ''City''],
        [''PatientID'', ''WeightKg'', ''HeightCm'', ''BloodPressureSystolic'',
         ''BloodPressureDiastolic''],
        [''SchoolID'', ''District'', ''Enrollment'', ''FundingPerStudent'', ''TestScoreAverage''],
        [''District'', ''PovertyRate'']]"
    by (simp add: columns_literals columns_health_table columns_large_sample columns_country)
  have ww: "list_all (\<lambda>t. well_written (snd t)) ?tables"
    by (simp add: well_writtenI columns_literals columns_health_table columns_large_sample
        columns_country)
  show ?thesis
    apply (rule exI [of _ w'], rule exI [of _ ?tables])
    apply (intro conjI)
          apply (rule run)
         apply (rule h)
        apply (rule paths)
       apply (rule n)
      apply (rule d)
      apply (rule bare)
     apply (rule ww)
    apply (rule cols)
    done
qed

lemma files_after_append: "files_after fs (xs @ ys) = files_after (files_after fs xs) ys"
proof (induction xs arbitrary: fs)
  case Nil
  then show ?case by simp
next
  case (Cons e es)
  then show ?case by (cases e) (simp_all add: fun_upd_def)
qed

lemma written_append: "written (xs @ ys) = written xs @ written ys"
  by (induction xs rule: written.induct) simp_all

lemma printed_append: "printed (xs @ ys) = printed xs @ printed ys"
  by (induction xs rule: printed.induct) simp_all

lemma written_FileWritten:
  "written (map (\<lambda>t. FileWritten (fst t) (f t)) ts) = map (\<lambda>t. (fst t, f t)) ts"
  by (induction ts) simp_all

lemma printed_FileWritten: "printed (map (\<lambda>t. FileWritten (fst t) (f t)) ts) = []"
  by (induction ts) simp_all

text \<open>The run from a world with an empty history.\<close>

theorem twenty_files_one_message_witness:
  "\<exists>w'. generate_ngo_data (const_world 0) = Inr w' \<and>
      map fst (written (history w')) = output_paths \<and>
      printed (history w') = [''All synthetic NGO datasets generated successfully.''] \<and>
      last (history w') = Printed ''All synthetic NGO datasets generated successfully.''"
proof -
  from twenty_files_one_message [of "const_world 0"]
  obtain w' tables where run: "generate_ngo_data (const_world 0) = Inr w'"
    and h: "history w' = history (const_world 0) @
        map (\<lambda>t. FileWritten (fst t) (csv_text False (snd t))) tables @
        [Printed ''All synthetic NGO datasets generated successfully.'']"
    and p: "map fst tables = output_paths"
    by (elim exE conjE)
  have h': "history w' = map (\<lambda>t. FileWritten (fst t) (csv_text False (snd t))) tables @
        [Printed ''All synthetic NGO datasets generated successfully.'']"
    using h by (simp add: const_world_def)
  have "map fst (written (history w')) = output_paths"
    unfolding h' by (simp add: written_append written_FileWritten comp_def p)
  moreover have "printed (history w') = [''All synthetic NGO datasets generated successfully.'']"
    unfolding h' by (simp add: printed_append printed_FileWritten)
  moreover have "last (history w') = Printed ''All synthetic NGO datasets generated successfully.''"
    unfolding h' by simp
  ultimately show ?thesis using run by blast
qed

lemma files_after_run:
  "files_after fs
       [FileWritten ''ngo_projects.csv'' c1,
        FileWritten ''beneficiary_data.csv'' c2,
        FileWritten ''large_ngo_projects.csv'' c3,
        FileWritten ''beneficiary_data_missing.csv'' c4,
        FileWritten ''project_updates.csv'' c5,
        FileWritten ''health_data.csv'' c6,
        FileWritten ''messy_data.csv'' c7,
        FileWritten ''item_data.csv'' c8,
        FileWritten ''advanced_messy_data.csv'' c9,
        FileWritten ''transaction_data.csv'' c10,
        FileWritten ''large_country_data.csv'' c11,
        FileWritten ''ngo_projects_cleaned.csv'' c12,
        FileWritten ''beneficiary_records.csv'' c13,
        FileWritten ''aid_distribution.csv'' c14,
        FileWritten ''beneficiary_data_dedup.csv'' c15,
        FileWritten ''event_logs.csv'' c16,
        FileWritten ''partner_organizations.csv'' c17,
        FileWritten ''health_records.csv'' c18,
        FileWritten ''school_data.csv'' c19,
        FileWritten ''district_poverty.csv'' c20,
        Printed msg]
   = fs(''ngo_projects.csv'' \<mapsto> c1, ''beneficiary_data.csv'' \<mapsto> c2,
        ''large_ngo_projects.csv'' \<mapsto> c3, ''beneficiary_data_missing.csv'' \<mapsto> c4,
        ''project_updates.csv'' \<mapsto> c5, ''health_data.csv'' \<mapsto> c6,
        ''messy_data.csv'' \<mapsto> c7, ''item_data.csv'' \<mapsto> c8,
        ''advanced_messy_data.csv'' \<mapsto> c9, ''transaction_data.csv'' \<mapsto> c10,
        ''large_country_data.csv'' \<mapsto> c11, ''ngo_projects_cleaned.csv'' \<mapsto> c12,
        ''beneficiary_records.csv'' \<mapsto> c13, ''aid_distribution.csv'' \<mapsto> c14,
        ''beneficiary_data_dedup.csv'' \<mapsto> c15, ''event_logs.csv'' \<mapsto> c16,
        ''partner_organizations.csv'' \<mapsto> c17, ''health_records.csv'' \<mapsto> c18,
        ''school_data.csv'' \<mapsto> c19, ''district_poverty.csv'' \<mapsto> c20)"
  by simp

lemma generated_files:
  "list_all (\<lambda>(p, c). generated_file w p = Some c)
     [(''ngo_projects.csv'', csv_text False (sanitized data_projects)),
      (''beneficiary_data.csv'', csv_text False (sanitized data_beneficiary_basic)),
      (''large_ngo_projects.csv'', csv_text False (table_of (df_large_sample w))),
      (''beneficiary_data_missing.csv'', csv_text False (sanitized data_missing)),
      (''project_updates.csv'', csv_text False (sanitized data_project_updates)),
      (''health_data.csv'', csv_text False health_table),
      (''messy_data.csv'', csv_text False (sanitized data_messy)),
      (''item_data.csv'', csv_text False (sanitized data_item)),
      (''advanced_messy_data.csv'', csv_text False (sanitized data_advanced_messy)),
      (''transaction_data.csv'', csv_text False (sanitized data_transaction)),
      (''large_country_data.csv'', csv_text False (table_of (df_country
             (snd (draws 100000 (snd (draws 100000 (snd (draws 100000 w))))))))),
      (''ngo_projects_cleaned.csv'', csv_text False (sanitized data_projects_cleaned)),
      (''beneficiary_records.csv'', csv_text False (sanitized data_beneficiary_records)),
      (''aid_distribution.csv'', csv_text False (sanitized data_aid_distribution)),
      (''beneficiary_data_dedup.csv'', csv_text False (sanitized data_beneficiary_dedup)),
      (''event_logs.csv'', csv_text False (sanitized data_event_logs)),
      (''partner_organizations.csv'', csv_text False (sanitized data_partners)),
      (''health_records.csv'', csv_text False (sanitized data_health_records)),
      (''school_data.csv'', csv_text False (sanitized data_school)),
      (''district_poverty.csv'', csv_text False (sanitized data_poverty))]"
proof -
  from generate_ngo_data_history [of w] obtain w' where run: "generate_ngo_data w = Inr w'"
    and h: "history w' = history w @
       [FileWritten ''ngo_projects.csv'' (csv_text False (sanitized data_projects)),
        FileWritten ''beneficiary_data.csv'' (csv_text False (sanitized data_beneficiary_basic)),
        FileWritten ''large_ngo_projects.csv'' (csv_text False (table_of (df_large_sample w))),
        FileWritten ''beneficiary_data_missing.csv'' (csv_text False (sanitized data_missing)),
        FileWritten ''project_updates.csv'' (csv_text False (sanitized data_project_updates)),
        FileWritten ''health_data.csv'' (csv_text False health_table),
        FileWritten ''messy_data.csv'' (csv_text False (sanitized data_messy)),
        FileWritten ''item_data.csv'' (csv_text False (sanitized data_item)),
        FileWritten ''advanced_messy_data.csv'' (csv_text False (sanitized data_advanced_messy)),
        FileWritten ''transaction_data.csv'' (csv_text False (sanitized data_transaction)),
        FileWritten ''large_country_data.csv''
          (csv_text False (table_of (df_country
             (snd (draws 100000 (snd (draws 100000 (snd (draws 100000 w))))))))),
        FileWritten ''ngo_projects_cleaned.csv'' (csv_text False (sanitized data_projects_cleaned)),
        FileWritten ''beneficiary_records.csv'' (csv_text False (sanitized data_beneficiary_records)),
        FileWritten ''aid_distribution.csv'' (csv_text False (sanitized data_aid_distribution)),
        FileWritten ''beneficiary_data_dedup.csv'' (csv_text False (sanitized data_beneficiary_dedup)),
        FileWritten ''event_logs.csv'' (csv_text False (sanitized data_event_logs)),
        FileWritten ''partner_organizations.csv'' (csv_text False (sanitized data_partners)),
        FileWritten ''health_records.csv'' (csv_text False (sanitized data_health_records)),
        FileWritten ''school_data.csv'' (csv_text False (sanitized data_school)),
        FileWritten ''district_poverty.csv'' (csv_text False (sanitized data_poverty)),
        Printed ''All synthetic NGO datasets generated successfully.'']"
    by (elim exE conjE)
  show ?thesis
    by (simp add: generated_file_def run h files_after_append files_after_run)
qed

lemma csv_rows_Suc:
  "i < nrows df \<Longrightarrow> csv_rows False df ! Suc i = map cell_text (row_cells df i)"
  by (simp add: csv_rows_def)

lemma csv_text_inj:
  "df \<noteq> [] \<Longrightarrow> df' \<noteq> [] \<Longrightarrow> csv_text False df = csv_text False df' \<Longrightarrow>
   csv_rows False df = csv_rows False df'"
  using parse_csv_text [of df False] parse_csv_text [of df' False] by simp

lemma large_sample_first_row:
  "csv_rows False (table_of (df_large_sample (const_world r))) ! 1 ! 1 =
     [''East Africa'', ''South Asia'', ''West Africa'', ''Latin America''] ! (r mod 4)"
  by (simp add: csv_rows_Suc df_large_sample_value table_of_def row_cells_def
      fst_draws_const snd_draws_const del: map_map)

lemma country_first_row:
  "csv_rows False (table_of (df_country (const_world r))) ! 1 ! 0 = countries ! (r mod 8)"
  by (simp add: csv_rows_Suc df_country_value table_of_def row_cells_def
      fst_draws_const snd_draws_const del: map_map)

lemma nrows_tables:
  "nrows (table_of (df_large_sample w)) = 100000"
  "nrows (table_of (df_country w)) = 100000"
  by (simp_all add: df_large_sample_value df_country_value table_of_def del: map_map)

lemma tables_not_Nil:
  "table_of (df_large_sample w) \<noteq> []"
  "table_of (df_country w) \<noteq> []"
  by (simp_all add: df_large_sample_value df_country_value table_of_def del: map_map)

lemma literal_paths_value:
  "literal_paths =
    [''ngo_projects.csv'', ''beneficiary_data.csv'',
     ''beneficiary_data_missing.csv'', ''project_updates.csv'', ''health_data.csv'',
     ''messy_data.csv'', ''item_data.csv'', ''advanced_messy_data.csv'', ''transaction_data.csv'',
     ''ngo_projects_cleaned.csv'', ''beneficiary_records.csv'',
     ''aid_distribution.csv'', ''beneficiary_data_dedup.csv'', ''event_logs.csv'',
     ''partner_organizations.csv'', ''health_records.csv'', ''school_data.csv'',
     ''district_poverty.csv'']"
  by (simp add: literal_paths_def output_paths_def)

text \<open>
  C8. The content of each of the eighteen files written from dict literals alone is the same
  after any two runs, whatever their random states and whatever was in the directory
  before; a second run on top of a first one leaves them as they were. The two files of the
  procedural tables do differ between some runs (here the runs whose random stream is
  constantly 0 and constantly 1), while in every run both read back into 100001 records.
\<close>

theorem literal_files_deterministic:
  "list_all (\<lambda>p. generated_file w p = generated_file v p \<and> generated_file w p \<noteq> None)
     literal_paths \<and>
   length literal_paths = 18 \<and>
   (generate_ngo_data w = Inr w' \<longrightarrow>
      list_all (\<lambda>p. generated_file w' p = generated_file w p) literal_paths) \<and>
   generated_file (const_world 0) ''large_ngo_projects.csv'' \<noteq>
     generated_file (const_world 1) ''large_ngo_projects.csv'' \<and>
   generated_file (const_world 0) ''large_country_data.csv'' \<noteq>
     generated_file (const_world 1) ''large_country_data.csv'' \<and>
   list_all (\<lambda>p. \<exists>rows. map_option parse_csv (generated_file w p) = Some (Some rows) \<and>
                length rows = 100001)
     [''large_ngo_projects.csv'', ''large_country_data.csv'']"
proof (intro conjI impI)
  show "list_all (\<lambda>p. generated_file w p = generated_file v p \<and> generated_file w p \<noteq> None)
     literal_paths"
    using generated_files [of w] generated_files [of v]
    by (simp add: literal_paths_value)
  show "length literal_paths = 18" by (simp add: literal_paths_value)
  show "list_all (\<lambda>p. generated_file w' p = generated_file w p) literal_paths"
    using generated_files [of w] generated_files [of w']
    by (simp add: literal_paths_value)
  show "generated_file (const_world 0) ''large_ngo_projects.csv'' \<noteq>
     generated_file (const_world 1) ''large_ngo_projects.csv''"
  proof
    assume "generated_file (const_world 0) ''large_ngo_projects.csv'' =
      generated_file (const_world 1) ''large_ngo_projects.csv''"
    with generated_files [of "const_world 0"] generated_files [of "const_world 1"]
    have "csv_text False (table_of (df_large_sample (const_world 0))) =
          csv_text False (table_of (df_large_sample (const_world 1)))"
      by simp
    then have "csv_rows False (table_of (df_large_sample (const_world 0))) =
          csv_rows False (table_of (df_large_sample (const_world 1)))"
      by (rule csv_text_inj [OF tables_not_Nil(1) tables_not_Nil(1)])
    then have "csv_rows False (table_of (df_large_sample (const_world 0))) ! 1 ! 1 =
          csv_rows False (table_of (df_large_sample (const_world 1))) ! 1 ! 1"
      by simp
    then show False unfolding large_sample_first_row by simp
  qed
  show "generated_file (const_world 0) ''large_country_data.csv'' \<noteq>
     generated_file (const_world 1) ''large_country_data.csv''"
  proof
    assume "generated_file (const_world 0) ''large_country_data.csv'' =
      generated_file (const_world 1) ''large_country_data.csv''"
    with generated_files [of "const_world 0"] generated_files [of "const_world 1"]
    have "csv_text False (table_of (df_country (const_world 0))) =
          csv_text False (table_of (df_country (const_world 1)))"
      by (simp add: snd_draws_const)
    then have "csv_rows False (table_of (df_country (const_world 0))) =
          csv_rows False (table_of (df_country (const_world 1)))"
      by (rule csv_text_inj [OF tables_not_Nil(2) tables_not_Nil(2)])
    then have "csv_rows False (table_of (df_country (const_world 0))) ! 1 ! 0 =
          csv_rows False (table_of (df_country (const_world 1))) ! 1 ! 0"
      by simp
    then show False unfolding country_first_row by (simp add: countries_def)
  qed
  show "list_all (\<lambda>p. \<exists>rows. map_option parse_csv (generated_file w p) = Some (Some rows) \<and>
                length rows = 100001)
     [''large_ngo_projects.csv'', ''large_country_data.csv'']"
    using generated_files [of w]
    by (simp add: parse_csv_text tables_not_Nil length_csv_rows nrows_tables)
qed
section \<open>Decimal text\<close>

lemma digit_value_Some: "is_digit c \<Longrightarrow> \<exists>d. digit_value c = Some d"
  by (auto simp: is_digit_def digit_value_def)

lemma digit_char_digit: "d < 10 \<Longrightarrow> is_digit (digit_char d)"
  by (auto simp: less_Suc_eq eval_nat_numeral is_digit_def digit_char_def)

lemma digit_value_digit_char: "d < 10 \<Longrightarrow> digit_value (digit_char d) = Some d"
  by (auto simp: less_Suc_eq eval_nat_numeral digit_value_def digit_char_def)

lemma show_nat_digits: "list_all is_digit (show_nat n)"
proof (induction n rule: show_nat.induct)
  case (1 n)
  show ?case
  proof (cases "n < 10")
    case True
    then show ?thesis by (subst show_nat.simps) (simp add: digit_char_digit)
  next
    case False
    with 1 have "list_all is_digit (show_nat (n div 10))" by simp
    with False show ?thesis by (subst show_nat.simps) (simp add: digit_char_digit)
  qed
qed

lemma show_nat_not_Nil: "show_nat n \<noteq> []"
  by (subst show_nat.simps) simp

lemma read_nat_append:
  "read_nat acc (s @ t) = (case read_nat acc s of None \<Rightarrow> None | Some a \<Rightarrow> read_nat a t)"
  by (induction s arbitrary: acc) (simp_all split: option.splits)

lemma read_nat_show_nat: "read_nat 0 (show_nat n) = Some n"
proof (induction n rule: show_nat.induct)
  case (1 n)
  show ?case
  proof (cases "n < 10")
    case True
    then show ?thesis by (subst show_nat.simps) (simp add: digit_value_digit_char)
  next
    case False
    with 1 have "read_nat 0 (show_nat (n div 10)) = Some (n div 10)" by simp
    with False show ?thesis
      by (subst show_nat.simps) (simp add: read_nat_append digit_value_digit_char)
  qed
qed

lemma read_nat_digits: "list_all is_digit s \<Longrightarrow> \<exists>n. read_nat acc s = Some n"
proof (induction s arbitrary: acc)
  case Nil
  then show ?case by simp
next
  case (Cons c s)
  then obtain d where "digit_value c = Some d" using digit_value_Some by auto
  with Cons show ?case by simp
qed

lemma read_digits_digits: "list_all is_digit s \<Longrightarrow> s \<noteq> [] \<Longrightarrow> \<exists>n. read_digits s = Some n"
  by (simp add: read_digits_def read_nat_digits)

lemma read_digits_show_nat: "read_digits (show_nat n) = Some n"
  by (simp add: read_digits_def show_nat_not_Nil read_nat_show_nat)

lemma digit_not_point: "is_digit c \<Longrightarrow> c \<noteq> CHR ''.'' \<and> c \<noteq> CHR ''-''"
  by (auto simp: is_digit_def)

lemma takeWhile_digits:
  "list_all is_digit s \<Longrightarrow> takeWhile (\<lambda>c. c \<noteq> CHR ''.'') (s @ CHR ''.'' # t) = s"
  by (induction s) (simp_all add: digit_not_point)

lemma dropWhile_digits:
  "list_all is_digit s \<Longrightarrow> dropWhile (\<lambda>c. c \<noteq> CHR ''.'') (s @ CHR ''.'' # t) = CHR ''.'' # t"
  by (induction s) (simp_all add: digit_not_point)

lemma dropWhile_digits_Nil:
  "list_all is_digit s \<Longrightarrow> dropWhile (\<lambda>c. c \<noteq> CHR ''.'') s = []"
  by (induction s) (simp_all add: digit_not_point)

lemma read_unsigned_show_nat: "read_unsigned (show_nat n) = Some (n, 0)"
  by (simp add: read_unsigned_def dropWhile_digits_Nil show_nat_digits read_digits_show_nat)

lemma hd_show_nat: "hd (show_nat n) \<noteq> CHR ''-''"
  using show_nat_digits [of n] show_nat_not_Nil [of n]
  by (cases "show_nat n") (simp_all add: digit_not_point)

lemma read_decimal_show_int: "read_decimal (show_int i) = Some (i, 0)"
proof (cases "i < 0")
  case True
  then show ?thesis by (simp add: read_decimal_def show_int_def read_unsigned_show_nat)
next
  case False
  obtain c cs where s: "show_nat (nat i) = c # cs"
    using show_nat_not_Nil [of "nat i"] by (cases "show_nat (nat i)") auto
  with hd_show_nat [of "nat i"] have "c \<noteq> CHR ''-''" by simp
  with False s read_unsigned_show_nat [of "nat i"] show ?thesis
    by (simp add: read_decimal_def show_int_def)
qed

lemma strip_zeros_digits: "list_all is_digit s \<Longrightarrow> list_all is_digit (strip_zeros s)"
proof -
  assume "list_all is_digit s"
  then have "\<forall>c \<in> set (rev s). is_digit c" by (simp add: list_all_iff)
  then have "\<forall>c \<in> set (dropWhile (\<lambda>c. c = CHR ''0'') (rev s)). is_digit c"
    using set_dropWhileD by fast
  then show ?thesis by (simp add: strip_zeros_def list_all_iff)
qed

lemma replicate_zero_digits: "list_all is_digit (replicate n (CHR ''0''))"
  by (induction n) (simp_all add: is_digit_def)

lemma zero_pad_digits: "list_all is_digit s \<Longrightarrow> list_all is_digit (zero_pad k s)"
  by (simp add: zero_pad_def replicate_zero_digits)

lemma read_unsigned_point:
  assumes "list_all is_digit a" "a \<noteq> []" "list_all is_digit b" "b \<noteq> []"
  shows "\<exists>v. read_unsigned (a @ CHR ''.'' # b) = Some v"
proof -
  from assms obtain x y where "read_digits a = Some x" "read_digits b = Some y"
    using read_digits_digits by blast
  with assms show ?thesis
    by (simp add: read_unsigned_def takeWhile_digits dropWhile_digits)
qed

lemma read_decimal_float_repr: "\<exists>v. read_decimal (float_repr m k) = Some v"
proof -
  define a where "a = show_nat (nat \<bar>m\<bar> div 10 ^ k)"
  define f where "f = strip_zeros (zero_pad k (show_nat (nat \<bar>m\<bar> mod 10 ^ k)))"
  define b where "b = (if f = [] then [CHR ''0''] else f)"
  have a: "list_all is_digit a" "a \<noteq> []"
    by (simp_all add: a_def show_nat_digits show_nat_not_Nil)
  have "list_all is_digit f"
    by (simp add: f_def strip_zeros_digits zero_pad_digits show_nat_digits)
  then have b: "list_all is_digit b" "b \<noteq> []"
    by (simp_all add: b_def is_digit_def)
  obtain v where v: "read_unsigned (a @ CHR ''.'' # b) = Some v"
    using read_unsigned_point [OF a b] by blast
  obtain c cs where c: "a = c # cs" using a(2) by (cases a) auto
  with a(1) have nm: "c \<noteq> CHR ''-''" by (simp add: digit_not_point)
  have repr: "float_repr m k = (if m < 0 then [CHR ''-''] else []) @ a @ CHR ''.'' # b"
    by (simp add: float_repr_def Let_def a_def b_def f_def)
  show ?thesis
  proof (cases "m < 0")
    case True
    with v show ?thesis by (cases v) (simp add: repr read_decimal_def)
  next
    case False
    with v c nm show ?thesis by (cases v) (simp add: repr read_decimal_def)
  qed
qed

lemma numeric_cell_text:
  "is_number c \<Longrightarrow> numeric_or_empty (cell_text (to_float c))"
  using read_decimal_float_repr
  by (cases c) (auto simp: numeric_or_empty_def)

lemma numeric_cell_text_plain:
  "is_number c \<Longrightarrow> numeric_or_empty (cell_text c)"
  using read_decimal_float_repr
  by (cases c) (auto simp: numeric_or_empty_def read_decimal_show_int)


section \<open>Round trips of the literal tables\<close>

lemma round_trips_written:
  "df \<noteq> [] \<Longrightarrow>
   round_trips table (csv_text False df) =
     (map fst df = map fst table \<and>
      list_all2 (list_all2 same_cell) (map (row_cells table) [0..<nrows table])
        (map (\<lambda>i. map cell_text (row_cells df i)) [0..<nrows df]))"
  by (simp add: round_trips_def parse_csv_text csv_rows_def)

lemmas cell_eval =
  sanitized_def sanitize_array_def row_cells_def nrows_def
  show_int_def show_nat.simps digit_char_def float_repr_def strip_zeros_def zero_pad_def
  upt_rec Let_def same_cell_def read_decimal_def read_unsigned_def read_digits_def
  digit_value_def

lemmas csv_eval =
  csv_text_def csv_rows_def sanitized_def sanitize_array_def row_cells_def nrows_def
  writerow_def quote_field_def escape_def special_char_def dquote_def newline_def
  show_int_def show_nat.simps digit_char_def float_repr_def strip_zeros_def zero_pad_def
  upt_rec Let_def

text \<open>A record with fields that hold the delimiter: both are written in quotes.\<close>

lemma advanced_messy_third_record:
  "writerow (map cell_text (row_cells (sanitized data_advanced_messy) 2)) =
     ''NGO-103,Medical aid for children,'' @ dquote # ''March 10, 2023'' @ dquote #
     CHR '','' # dquote # ''1,200'' @ [dquote, newline]"
  by (simp add: data_advanced_messy_def sanitized_def sanitize_array_def row_cells_def
      writerow_def quote_field_def escape_def special_char_def dquote_def newline_def)

lemma round_trips_projects:
  "round_trips data_projects (csv_text False (sanitized data_projects))"
  by (simp add: round_trips_written data_projects_def cell_eval)

lemma round_trips_beneficiary_basic:
  "round_trips data_beneficiary_basic (csv_text False (sanitized data_beneficiary_basic))"
  by (simp add: round_trips_written data_beneficiary_basic_def cell_eval)

lemma round_trips_missing:
  "round_trips data_missing (csv_text False (sanitized data_missing))"
  by (simp add: round_trips_written data_missing_def cell_eval)

lemma round_trips_project_updates:
  "round_trips data_project_updates (csv_text False (sanitized data_project_updates))"
  by (simp add: round_trips_written data_project_updates_def cell_eval)

lemma round_trips_messy:
  "round_trips data_messy (csv_text False (sanitized data_messy))"
  by (simp add: round_trips_written data_messy_def cell_eval)

lemma round_trips_item:
  "round_trips data_item (csv_text False (sanitized data_item))"
  by (simp add: round_trips_written data_item_def cell_eval)

lemma round_trips_advanced_messy:
  "round_trips data_advanced_messy (csv_text False (sanitized data_advanced_messy))"
  by (simp add: round_trips_written data_advanced_messy_def cell_eval)

lemma round_trips_transaction:
  "round_trips data_transaction (csv_text False (sanitized data_transaction))"
  by (simp add: round_trips_written data_transaction_def cell_eval)

lemma round_trips_projects_cleaned:
  "round_trips data_projects_cleaned (csv_text False (sanitized data_projects_cleaned))"
  by (simp add: round_trips_written data_projects_cleaned_def cell_eval)

lemma round_trips_beneficiary_records:
  "round_trips data_beneficiary_records (csv_text False (sanitized data_beneficiary_records))"
  by (simp add: round_trips_written data_beneficiary_records_def cell_eval)

lemma round_trips_aid_distribution:
  "round_trips data_aid_distribution (csv_text False (sanitized data_aid_distribution))"
  by (simp add: round_trips_written data_aid_distribution_def cell_eval)

lemma round_trips_beneficiary_dedup:
  "round_trips data_beneficiary_dedup (csv_text False (sanitized data_beneficiary_dedup))"
  by (simp add: round_trips_written data_beneficiary_dedup_def cell_eval)

lemma round_trips_event_logs:
  "round_trips data_event_logs (csv_text False (sanitized data_event_logs))"
  by (simp add: round_trips_written data_event_logs_def cell_eval)

lemma round_trips_partners:
  "round_trips data_partners (csv_text False (sanitized data_partners))"
  by (simp add: round_trips_written data_partners_def cell_eval)

lemma round_trips_health_records:
  "round_trips data_health_records (csv_text False (sanitized data_health_records))"
  by (simp add: round_trips_written data_health_records_def cell_eval)

lemma round_trips_school:
  "round_trips data_school (csv_text False (sanitized data_school))"
  by (simp add: round_trips_written data_school_def cell_eval)

lemma round_trips_poverty:
  "round_trips data_poverty (csv_text False (sanitized data_poverty))"
  by (simp add: round_trips_written data_poverty_def cell_eval)

lemma round_trips_health_table: "round_trips health_table (csv_text False health_table)"
  by (simp add: round_trips_written health_table_def df_health_value cell_eval)

lemma not_round_trips_data_health: "\<not> round_trips data_health (csv_text False health_table)"
  by (simp add: round_trips_written health_table_def df_health_value data_health_def cell_eval)

lemmas round_trips_literals =
  round_trips_projects
  round_trips_beneficiary_basic
  round_trips_missing
  round_trips_project_updates
  round_trips_messy
  round_trips_item
  round_trips_advanced_messy
  round_trips_transaction
  round_trips_projects_cleaned
  round_trips_beneficiary_records
  round_trips_aid_distribution
  round_trips_beneficiary_dedup
  round_trips_event_logs
  round_trips_partners
  round_trips_health_records
  round_trips_school
  round_trips_poverty
  round_trips_health_table

text \<open>
  C3, as the script has it. From any world, each of the eighteen literal files round-trips
  the table it is written from: read back, it has the column names of the dict literal as
  its header and one record per row, every field reads as the hand-specified value of its
  cell (strings character by character, with their leading and trailing blanks), and the
  empty fields are exactly the missing markers. For health_data the table written is the
  dict literal after the Flu override, \<open>health_table\<close>, and that is what the file
  round-trips.
\<close>

theorem literal_files_round_trip:
  "list_all (\<lambda>(p, data).
       map_option (round_trips (if p = ''health_data.csv'' then health_table else data))
         (generated_file w p) = Some True) literal_tables \<and>
   map fst literal_tables = literal_paths \<and>
   health_frame data_health = Inr health_table"
proof (intro conjI)
  show "list_all (\<lambda>(p, data).
       map_option (round_trips (if p = ''health_data.csv'' then health_table else data))
         (generated_file w p) = Some True) literal_tables"
    using generated_files [of w]
    by (simp add: literal_tables_def round_trips_literals)
  show "map fst literal_tables = literal_paths"
    by (simp add: literal_tables_def literal_paths_value)
  show "health_frame data_health = Inr health_table"
    using df_health_table by (simp add: df_health_def)
qed

text \<open>The file of the table with leading and trailing blanks in its strings, and its
  round trip.\<close>

theorem literal_files_round_trip_witness:
  "generated_file (const_world 0) ''item_data.csv'' =
     Some ''Item,Quantity,Price\<newline>   apple,10,1.20\<newline>BANANA ,5,0.75\<newline>orange,12,2.50\<newline> GRAPES  ,8,3.00\<newline>'' \<and>
   map_option (round_trips data_item) (generated_file (const_world 0) ''item_data.csv'') = Some True"
proof
  show "generated_file (const_world 0) ''item_data.csv'' =
     Some ''Item,Quantity,Price\<newline>   apple,10,1.20\<newline>BANANA ,5,0.75\<newline>orange,12,2.50\<newline> GRAPES  ,8,3.00\<newline>''"
    using generated_files [of "const_world 0"]
    by (simp add: data_item_def csv_eval)
  show "map_option (round_trips data_item) (generated_file (const_world 0) ''item_data.csv'') = Some True"
    using literal_files_round_trip [of "const_world 0"]
    by (simp add: literal_tables_def)
qed

text \<open>C3 as the specification words it fails on health_data: the file does not read back
  into the hand-specified values, because the medication written by hand for the patients 1
  and 5 (\<open>A\<close>) is overridden before the file is written.\<close>

theorem health_file_not_hand_specified:
  "map_option (round_trips data_health) (generated_file (const_world 0) ''health_data.csv'')
     = Some False"
  using generated_files [of "const_world 0"]
  by (simp add: not_round_trips_data_health)

section \<open>Missing markers in the written files\<close>

lemma sanitized_nth:
  "j < length data \<Longrightarrow> sanitized data ! j = (fst (data ! j), sanitize_array (snd (data ! j)))"
  by (simp add: sanitized_def)

lemma sanitize_array_ints: "list_all is_int xs \<Longrightarrow> sanitize_array xs = xs"
  by (simp add: sanitize_array_def)

lemma sanitize_array_numeric:
  assumes "list_all is_number xs"
  shows "list_all (\<lambda>c. numeric_or_empty (cell_text c)) (sanitize_array xs)"
proof (cases "list_all is_int xs")
  case True
  with assms show ?thesis
    by (simp add: sanitize_array_def list_all_iff numeric_cell_text_plain)
next
  case False
  with assms show ?thesis
    by (simp add: sanitize_array_def list_all_iff numeric_cell_text)
qed

lemma int_cell_text:
  "is_int c \<Longrightarrow> \<exists>n. c = IntV n \<and> read_decimal (cell_text c) = Some (n, 0)"
  by (cases c) (simp_all add: read_decimal_show_int)

text \<open>
  C6, as the script has it. In the text of any frame, the field of a cell that holds the
  missing marker is empty, and the text of a frame with a column reads back into exactly
  these fields. When a frame is constructed from a dict literal, a list of numbers (ints,
  floats, missing markers) becomes a column of which every field is a decimal literal or
  empty, and a list of ints is the column as written, every field the integer literal of
  its cell, whatever the other columns hold: a missing marker turns the ints of its own
  column into floats (\<open>25.0\<close>), and of no other.
\<close>

theorem missing_markers_written_empty:
  "(i < nrows df \<and> j < length df \<and> snd (df ! j) ! i = NaN \<longrightarrow>
      csv_rows False df ! Suc i ! j = [] \<and> quote_field [] = []) \<and>
   (df \<noteq> [] \<longrightarrow> parse_csv (csv_text False df) = Some (csv_rows False df)) \<and>
   (DataFrame data = Inr df \<and> j < length data \<longrightarrow>
      fst (df ! j) = fst (data ! j) \<and>
      (list_all is_number (snd (data ! j)) \<longrightarrow>
         list_all (\<lambda>c. numeric_or_empty (cell_text c)) (snd (df ! j))) \<and>
      (list_all is_int (snd (data ! j)) \<longrightarrow>
         snd (df ! j) = snd (data ! j) \<and>
         list_all (\<lambda>c. \<exists>n. c = IntV n \<and> read_decimal (cell_text c) = Some (n, 0)) (snd (df ! j))))"
proof (intro conjI impI)
  assume a: "i < nrows df \<and> j < length df \<and> snd (df ! j) ! i = NaN"
  then show "csv_rows False df ! Suc i ! j = []"
    by (simp add: csv_rows_Suc row_cells_def)
  show "quote_field [] = []" by (simp add: quote_field_def)
next
  assume "df \<noteq> []"
  then show "parse_csv (csv_text False df) = Some (csv_rows False df)"
    by (rule parse_csv_text)
next
  assume a: "DataFrame data = Inr df \<and> j < length data"
  then have df: "df = sanitized data" and j: "j < length data"
    using DataFrame_Inr(1) by auto
  from df j show "fst (df ! j) = fst (data ! j)" by (simp add: sanitized_nth)
  {
    assume "list_all is_number (snd (data ! j))"
    then show "list_all (\<lambda>c. numeric_or_empty (cell_text c)) (snd (df ! j))"
      using df j by (simp add: sanitized_nth sanitize_array_numeric)
  }
  {
    assume ints: "list_all is_int (snd (data ! j))"
    then show same: "snd (df ! j) = snd (data ! j)"
      using df j by (simp add: sanitized_nth sanitize_array_ints)
    from ints show "list_all (\<lambda>c. \<exists>n. c = IntV n \<and> read_decimal (cell_text c) = Some (n, 0))
        (snd (df ! j))"
      unfolding same by (simp add: list_all_iff int_cell_text)
  }
qed

text \<open>
  The beneficiary_data_missing table: the third record of its file has an empty age and an
  empty assistance type; the \<open>Age\<close> column, which holds two missing markers, is written as
  floats and empty fields; the \<open>BeneficiaryID\<close> column next to it is the list of
  integers of the dict literal (the first record starts with \<open>1\<close>, not \<open>1.0\<close>).
\<close>

theorem missing_markers_written_empty_witness:
  "DataFrame data_missing = Inr (sanitized data_missing) \<and>
   csv_rows False (sanitized data_missing) ! 3 = [''3'', '''', ''Female'', ''Camp A'', ''''] \<and>
   map cell_text (snd (sanitized data_missing ! 1)) =
     [''25.0'', ''34.0'', '''', ''45.0'', ''19.0'', '''', ''50.0''] \<and>
   list_all (\<lambda>c. numeric_or_empty (cell_text c)) (snd (sanitized data_missing ! 1)) \<and>
   csv_rows False (sanitized data_missing) ! 1 = [''1'', ''25.0'', ''Female'', ''Camp A'', ''Food''] \<and>
   snd (sanitized data_missing ! 0) = snd (data_missing ! 0)"
proof -
  have c: "DataFrame data_missing = Inr (sanitized data_missing)"
    by (rule DataFrame_literals)
  have l: "1 < length data_missing" "0 < length data_missing"
    by (simp_all add: data_missing_def)
  have n: "list_all is_number (snd (data_missing ! 1))" "list_all is_int (snd (data_missing ! 0))"
    by (simp_all add: data_missing_def)
  from missing_markers_written_empty [of 0 "sanitized data_missing" 1 data_missing] c l(1) n(1)
  have "list_all (\<lambda>c. numeric_or_empty (cell_text c)) (snd (sanitized data_missing ! 1))"
    by blast
  moreover
  from missing_markers_written_empty [of 0 "sanitized data_missing" 0 data_missing] c l(2) n(2)
  have "snd (sanitized data_missing ! 0) = snd (data_missing ! 0)"
    by blast
  moreover have "csv_rows False (sanitized data_missing) ! 3 =
      [''3'', '''', ''Female'', ''Camp A'', '''']"
    by (simp add: data_missing_def csv_eval)
  moreover have "map cell_text (snd (sanitized data_missing ! 1)) =
     [''25.0'', ''34.0'', '''', ''45.0'', ''19.0'', '''', ''50.0'']"
    by (simp add: data_missing_def csv_eval)
  moreover have "csv_rows False (sanitized data_missing) ! 1 =
      [''1'', ''25.0'', ''Female'', ''Camp A'', ''Food'']"
    by (simp add: data_missing_def csv_eval)
  ultimately show ?thesis using c by blast
qed

text \<open>C6 as the specification words it, for any column that holds a missing marker, fails
  on project_updates: its \<open>Status\<close> and \<open>Notes\<close> columns hold missing markers among
  strings (\<open>On Track\<close>), which are written as they are and are not numeric.\<close>

theorem string_columns_with_missing_not_numeric:
  "map_sum id missing_columns_numeric (DataFrame data_project_updates) = Inr False"
  by (simp add: DataFrame_def data_project_updates_def missing_columns_numeric_def
      sanitized_def sanitize_array_def numeric_or_empty_def read_decimal_def read_unsigned_def
      read_digits_def digit_value_def)

section \<open>Two runs\<close>

text \<open>A second run on top of a first one, and the item_data file after a run from another
  random state: the eighteen literal files are as after the first run.\<close>

theorem literal_files_deterministic_witness:
  "\<exists>w'. generate_ngo_data (const_world 0) = Inr w' \<and>
      list_all (\<lambda>p. generated_file w' p = generated_file (const_world 0) p) literal_paths \<and>
      generated_file (const_world 0) ''item_data.csv'' = generated_file (const_world 1) ''item_data.csv''"
proof -
  from generate_ngo_data_history [of "const_world 0"]
  obtain w' where run: "generate_ngo_data (const_world 0) = Inr w'" by blast
  with literal_files_deterministic [of "const_world 0" "const_world 1" w']
  have "list_all (\<lambda>p. generated_file w' p = generated_file (const_world 0) p) literal_paths"
    and "list_all (\<lambda>p. generated_file (const_world 0) p = generated_file (const_world 1) p \<and>
           generated_file (const_world 0) p \<noteq> None) literal_paths"
    by blast+
  then show ?thesis using run by (auto simp: literal_paths_value)
qed

end
